theory Spec2Isabelle
  imports Main "HOL-Library.Sublist"
begin

section \<open>Python values: errors, text formatting\<close>

text \<open>
  The exceptions that travel through \<open>TrainedSupervisedModel\<close>. \<open>KeyError\<close> carries its
  single argument, \<open>HealthcareAIError\<close> its message and \<open>AttributeError\<close> the attribute
  that was not found. \<open>AssertionError\<close> and \<open>ValueError\<close> are what the pandas constructors
  raise on a shape mismatch; \<open>OtherError\<close> is any other exception a collaborator raises.
\<close>

datatype error =
    KeyError string
  | HealthcareAIError string
  | AttributeError string
  | AssertionError
  | ValueError
  | OtherError string

text \<open>Sequencing of two fallible steps: the first exception raised ends the call.\<close>

definition and_then :: "error + 'a \<Rightarrow> ('a \<Rightarrow> error + 'b) \<Rightarrow> error + 'b" where
  "and_then r f = (case r of Inl e \<Rightarrow> Inl e | Inr x \<Rightarrow> f x)"

text \<open>\<open>str\<close> of a Python \<open>int\<close>: decimal digits, a minus sign for a negative number.\<close>

definition digit_char :: "nat \<Rightarrow> char" where
  "digit_char d = char_of (48 + d)"

fun py_str_nat :: "nat \<Rightarrow> string" where
  "py_str_nat n = (if n < 10 then [digit_char n] else py_str_nat (n div 10) @ [digit_char (n mod 10)])"

definition py_str_int :: "int \<Rightarrow> string" where
  "py_str_int i = (if i < 0 then CHR ''-'' # py_str_nat (nat (- i)) else py_str_nat (nat i))"

text \<open>
  \<open>repr\<close> of a Python \<open>str\<close>. A character of the model is a code point below 256.
  The text is printed between single quotes, or between double quotes when it holds a
  single quote and no double quote; a backslash and the chosen quote are escaped, tab,
  newline and carriage return are printed as \<open>\t\<close>, \<open>\n\<close> and \<open>\r\<close>, and every
  other code point that is not printable as \<open>\xNN\<close>. Below 256 the code points that
  are not printable are 0 to 31, 127 to 160 and 173.
\<close>

definition squote :: char where "squote = CHR 0x27"
definition dquote :: char where "dquote = CHR 0x22"
definition backslash :: char where "backslash = CHR 0x5C"

definition hex_char :: "nat \<Rightarrow> char" where
  "hex_char d = (if d < 10 then char_of (48 + d) else char_of (87 + d))"

definition printable_char :: "char \<Rightarrow> bool" where
  "printable_char c \<longleftrightarrow>
     (32::nat) \<le> of_char c \<and> \<not> ((127::nat) \<le> of_char c \<and> of_char c \<le> (160::nat))
     \<and> of_char c \<noteq> (173::nat)"

definition py_escape_char :: "char \<Rightarrow> char \<Rightarrow> string" where
  "py_escape_char q c =
     (if c = backslash then [backslash, backslash]
      else if c = q then [backslash, q]
      else if c = CHR 0x09 then [backslash, CHR ''t'']
      else if c = CHR 0x0A then [backslash, CHR ''n'']
      else if c = CHR 0x0D then [backslash, CHR ''r'']
      else if \<not> printable_char c
        then [backslash, CHR ''x'', hex_char (of_char c div 16), hex_char (of_char c mod 16)]
      else [c])"

definition py_repr :: "string \<Rightarrow> string" where
  "py_repr s =
     (let q = (if squote \<in> set s \<and> dquote \<notin> set s then dquote else squote)
      in q # concat (map (py_escape_char q) s) @ [q])"

fun join_str :: "string \<Rightarrow> string list \<Rightarrow> string" where
  "join_str sep [] = []"
| "join_str sep [x] = x"
| "join_str sep (x # y # ys) = x @ sep @ join_str sep (y # ys)"

text \<open>\<open>str\<close> of a Python list of strings, as \<open>format\<close> prints it: \<open>['a', 'b']\<close>.\<close>

definition py_str_list :: "string list \<Rightarrow> string" where
  "py_str_list xs = ''['' @ join_str '', '' (map py_repr xs) @ '']''"

text \<open>
  \<open>str\<close> of a numpy array of strings that fits on one line, as \<open>%s\<close> prints it:
  \<open>['a' 'b']\<close>.
\<close>

definition np_str :: "string list \<Rightarrow> string" where
  "np_str xs = ''['' @ join_str '' '' (map py_repr xs) @ '']''"

text \<open>\<open>str\<close> of a \<open>KeyError\<close> with one argument is the \<open>repr\<close> of that argument.\<close>

definition str_KeyError :: "string \<Rightarrow> string" where
  "str_KeyError arg = py_repr arg"

text \<open>
  A plain name is one that \<open>repr\<close> prints as it is between its quotes: every character
  is printable and no backslash, and it does not hold both kinds of quote. A bare name
  holds no single quote either, so that it is also printed as it is inside the \<open>repr\<close>
  of a longer text.
\<close>

definition plain_name :: "string \<Rightarrow> bool" where
  "plain_name s \<longleftrightarrow>
     list_all (\<lambda>c. c \<noteq> backslash \<and> printable_char c) s
     \<and> \<not> (squote \<in> set s \<and> dquote \<in> set s)"

definition bare_name :: "string \<Rightarrow> bool" where
  "bare_name s \<longleftrightarrow> list_all (\<lambda>c. c \<noteq> backslash \<and> c \<noteq> squote \<and> printable_char c) s"

section \<open>The pandas operations the class calls\<close>

text \<open>
  A cell holds text, a number or the missing value. A \<open>DataFrame\<close> is its row index and
  its columns in order, each a name with one cell per row. pandas allows two columns of one
  name, so the columns are a list of pairs and not a map.
\<close>

datatype cell = Txt string | Num int | NaN

type_synonym label = int

record dataframe =
  index :: "label list"
  columns :: "(string \<times> cell list) list"

definition names :: "dataframe \<Rightarrow> string list" where
  "names df = map fst (columns df)"

definition nrows :: "dataframe \<Rightarrow> nat" where
  "nrows df = length (index df)"

text \<open>The \<open>i\<close>-th row of a frame: the cell of every column at position \<open>i\<close>, in column order.\<close>

definition row :: "dataframe \<Rightarrow> nat \<Rightarrow> (string \<times> cell) list" where
  "row df i = map (\<lambda>(c, vs). (c, if i < length vs then vs ! i else NaN)) (columns df)"

definition rows :: "dataframe \<Rightarrow> (string \<times> cell) list list" where
  "rows df = map (row df) [0..<nrows df]"

text \<open>
  A well-formed frame: columns are identified by their names, and every column has one cell
  per row of the index.
\<close>

definition wf_dataframe :: "dataframe \<Rightarrow> bool" where
  "wf_dataframe df \<longleftrightarrow>
     distinct (names df) \<and> list_all (\<lambda>c. length (snd c) = nrows df) (columns df)"

text \<open>
  \<open>df[keys]\<close> with a list of column names: a new frame with the same index holding the
  named columns in the order of \<open>keys\<close>; a \<open>KeyError\<close> naming the keys that are no column
  of \<open>df\<close>, when there is one.
\<close>

definition getitem_columns :: "dataframe \<Rightarrow> string list \<Rightarrow> error + dataframe" where
  "getitem_columns df keys =
     (let missing = filter (\<lambda>k. k \<notin> set (names df)) keys
      in if missing \<noteq> [] then Inl (KeyError (np_str missing @ '' not in index''))
         else Inr \<lparr>index = index df,
                   columns = concat (map (\<lambda>k. filter (\<lambda>c. fst c = k) (columns df)) keys)\<rparr>)"

text \<open>
  \<open>pd.DataFrame(data, columns=cols, index=idx)\<close> on a list of rows. Rows are padded with
  the missing value to the longest one; the number of column names must be that width
  (\<open>AssertionError\<close> otherwise) and, when there is a column, the number of rows must be
  the length of the index (\<open>ValueError\<close> otherwise). An empty \<open>data\<close> gives a frame
  of missing values.
\<close>

definition DataFrame :: "string list list \<Rightarrow> string list \<Rightarrow> label list \<Rightarrow> error + dataframe" where
  "DataFrame data cols idx =
     (if data = [] then
        Inr \<lparr>index = idx, columns = map (\<lambda>c. (c, replicate (length idx) NaN)) cols\<rparr>
      else
        let width = foldr max (map length data) 0
        in if length cols \<noteq> width then Inl AssertionError
           else if width \<noteq> 0 \<and> length data \<noteq> length idx then Inl ValueError
           else Inr \<lparr>index = idx,
                     columns = map (\<lambda>j. (cols ! j,
                                 map (\<lambda>r. if j < length r then Txt (r ! j) else NaN) data))
                               [0..<width]\<rparr>)"

text \<open>
  Reindexing one frame on the labels \<open>idx\<close>, as \<open>pd.concat\<close> does for \<open>join_axes\<close>: a
  frame that already has this index is taken as it is; otherwise each label is looked up
  in the frame's own index (\<open>ValueError\<close> when that index has a duplicate), and a label
  that is not found gives a row of missing values.
\<close>

fun position :: "label \<Rightarrow> label list \<Rightarrow> nat option" where
  "position l [] = None"
| "position l (x # xs) = (if l = x then Some 0 else map_option Suc (position l xs))"

definition reindex :: "dataframe \<Rightarrow> label list \<Rightarrow> error + dataframe" where
  "reindex df idx =
     (if index df = idx then Inr df
      else if \<not> distinct (index df) then Inl ValueError
      else Inr \<lparr>index = idx,
                columns = map (\<lambda>(c, vs). (c, map (\<lambda>l. case position l (index df) of
                                                      None \<Rightarrow> NaN
                                                    | Some i \<Rightarrow> if i < length vs then vs ! i else NaN) idx))
                              (columns df)\<rparr>)"

fun reindex_all :: "dataframe list \<Rightarrow> label list \<Rightarrow> error + dataframe list" where
  "reindex_all [] idx = Inr []"
| "reindex_all (df # dfs) idx =
     and_then (reindex df idx) (\<lambda>d. and_then (reindex_all dfs idx) (\<lambda>ds. Inr (d # ds)))"

text \<open>
  \<open>pd.concat(objs, axis=1, join_axes=[idx])\<close>: the columns of all the frames side by
  side, in order, on the index \<open>idx\<close>.
\<close>

definition concat_axis1 :: "dataframe list \<Rightarrow> label list \<Rightarrow> error + dataframe" where
  "concat_axis1 objs idx =
     (if objs = [] then Inl ValueError
      else and_then (reindex_all objs idx)
             (\<lambda>ds. Inr \<lparr>index = idx, columns = concat (map columns ds)\<rparr>))"

text \<open>
  \<open>df[key] = value\<close> with a list: the list must have one element per row
  (\<open>ValueError\<close> otherwise); a column of that name is overwritten where it stands, and a
  new name is appended as the last column.
\<close>

definition setitem :: "dataframe \<Rightarrow> string \<Rightarrow> cell list \<Rightarrow> error + dataframe" where
  "setitem df key v =
     (if length v \<noteq> nrows df then Inl ValueError
      else if key \<in> set (names df) then
        Inr (df\<lparr>columns := map (\<lambda>(c, vs). if c = key then (c, v) else (c, vs)) (columns df)\<rparr>)
      else Inr (df\<lparr>columns := columns df @ [(key, v)]\<rparr>))"

section \<open>TrainedSupervisedModel\<close>

text \<open>
  The collaborators are objects of other modules: the fitted pipeline with its
  \<open>transform\<close>, the fitted predictor with \<open>predict\<close> and \<open>predict_proba\<close>, and the
  function \<open>top_k_features\<close> of \<open>healthcareai.common.top_factors\<close>, which every
  definition below takes as its first parameter. Each one may raise.
\<close>

record pipeline =
  transform :: "dataframe \<Rightarrow> error + dataframe"

record predictor =
  predict :: "dataframe \<Rightarrow> error + cell list"
  predict_proba :: "dataframe \<Rightarrow> error + cell list"

record 'fm TrainedSupervisedModel =
  model :: predictor
  feature_model :: 'fm
  fit_pipeline :: pipeline
  column_names :: "string list"
  model_type :: string
  grain_column :: string
  prediction_column :: string
  y_pred :: "cell list"
  y_actual :: "cell list"

type_synonym 'fm top_k_features_fn = "dataframe \<Rightarrow> 'fm \<Rightarrow> int \<Rightarrow> error + string list list"

text \<open>The message of \<open>prepare_and_subset\<close>, with its three \<open>{}\<close> fields filled in.\<close>

definition nl :: string where "nl = [CHR 0x0A]"

definition indent :: string where "indent = replicate 12 (CHR '' '')"

definition message_intro :: string where
  "message_intro =
     ''One or more of the columns that the saved trained model needs is not in the dataframe.''
       @ nl @ nl @ indent
     @ ''Please compare these lists to see which field(s) is/are missing. Note that you can pass in extra fields,''
       @ nl @ nl @ indent
     @ ''which will be ignored, but you must pass in all the required fields.''
       @ nl @ nl @ indent @ nl @ indent"

definition message_sep :: string where
  "message_sep = nl @ indent @ nl @ indent"

definition message_tail :: string where
  "message_tail = nl @ indent"

definition error_message :: "string list \<Rightarrow> string list \<Rightarrow> string \<Rightarrow> string" where
  "error_message required given ke =
     message_intro
     @ ''Required fields: '' @ py_str_list required @ message_sep
     @ ''Given fields: '' @ py_str_list given @ message_sep
     @ ''Likely missing field(s): '' @ str_KeyError ke @ message_tail"

text \<open>
  \<open>prepare_and_subset\<close>: the \<open>try\<close> block runs the pipeline and then selects
  \<open>column_names\<close>; a \<open>KeyError\<close> from either statement is replaced by a
  \<open>HealthcareAIError\<close>, and any other exception leaves the block as it is.
\<close>

definition prepare_and_subset :: "'fm TrainedSupervisedModel \<Rightarrow> dataframe \<Rightarrow> error + dataframe" where
  "prepare_and_subset self dataframe =
     (case and_then (transform (fit_pipeline self) dataframe)
                    (\<lambda>prepared_dataframe. getitem_columns prepared_dataframe (column_names self)) of
        Inl (KeyError ke) \<Rightarrow>
          Inl (HealthcareAIError (error_message (column_names self) (names dataframe) ke))
      | Inl e \<Rightarrow> Inl e
      | Inr prepared_dataframe \<Rightarrow> Inr prepared_dataframe)"

definition make_predictions :: "'fm TrainedSupervisedModel \<Rightarrow> dataframe \<Rightarrow> error + cell list" where
  "make_predictions self dataframe =
     and_then (prepare_and_subset self dataframe)
       (\<lambda>prepared_dataframe. predict (model self) prepared_dataframe)"

definition reason_col_names :: "int \<Rightarrow> string list" where
  "reason_col_names number_top_features =
     map (\<lambda>i. ''Factor'' @ py_str_int i @ ''TXT'') [1..number_top_features]"

definition make_factors ::
  "'fm top_k_features_fn \<Rightarrow> 'fm TrainedSupervisedModel \<Rightarrow> dataframe \<Rightarrow> int \<Rightarrow> error + dataframe" where
  "make_factors top_k_features self dataframe number_top_features =
     and_then (prepare_and_subset self dataframe) (\<lambda>prepared_dataframe.
     and_then (getitem_columns dataframe [grain_column self]) (\<lambda>results.
     and_then (top_k_features prepared_dataframe (feature_model self) number_top_features)
       (\<lambda>top_features.
     and_then (DataFrame top_features (reason_col_names number_top_features) (index dataframe))
       (\<lambda>reasons_df.
     concat_axis1 [results, reasons_df] (index dataframe)))))"

definition make_predictions_with_k_factors ::
  "'fm top_k_features_fn \<Rightarrow> 'fm TrainedSupervisedModel \<Rightarrow> dataframe \<Rightarrow> int \<Rightarrow> error + dataframe" where
  "make_predictions_with_k_factors top_k_features self dataframe number_top_features =
     and_then (make_factors top_k_features self dataframe number_top_features) (\<lambda>results.
     and_then (make_predictions self dataframe) (\<lambda>predictions_list.
     setitem results (prediction_column self) predictions_list))"

text \<open>
  Attribute lookup on the object. The class derives from \<open>object\<close> and defines the
  methods below; \<open>__init__\<close> sets the nine data attributes. A name that is neither raises
  \<open>AttributeError\<close>. The table holds the methods that take a frame and return one, with
  their default \<open>number_top_features=3\<close>.
\<close>

definition defined_attributes :: "string list" where
  "defined_attributes =
     [''model'', ''feature_model'', ''fit_pipeline'', ''column_names'', ''model_type'',
      ''grain_column'', ''prediction_column'', ''y_pred'', ''y_actual'',
      ''save'', ''make_predictions'', ''make_factors'', ''prepare_and_subset'',
      ''make_predictions_with_k_factors'', ''create_all'', ''create_catalyst'',
      ''get_roc_auc'', ''roc_curve_plot'']"

definition frame_methods ::
  "'fm top_k_features_fn \<Rightarrow>
   (string \<times> ('fm TrainedSupervisedModel \<Rightarrow> dataframe \<Rightarrow> error + dataframe)) list" where
  "frame_methods top_k_features =
     [(''make_factors'', \<lambda>self df. make_factors top_k_features self df 3),
      (''prepare_and_subset'', prepare_and_subset),
      (''make_predictions_with_k_factors'',
         \<lambda>self df. make_predictions_with_k_factors top_k_features self df 3)]"

definition call_frame_method ::
  "'fm top_k_features_fn \<Rightarrow> string \<Rightarrow> 'fm TrainedSupervisedModel \<Rightarrow> dataframe \<Rightarrow> error + dataframe" where
  "call_frame_method top_k_features name self df =
     (if name \<notin> set defined_attributes then
        Inl (AttributeError name)
      else case map_of (frame_methods top_k_features) name of
             Some m \<Rightarrow> m self df
           | None \<Rightarrow> Inl (OtherError ''TypeError''))"

definition create_all ::
  "'fm top_k_features_fn \<Rightarrow> 'fm TrainedSupervisedModel \<Rightarrow> dataframe \<Rightarrow> error + dataframe" where
  "create_all top_k_features self original_df =
     and_then (call_frame_method top_k_features ''create_predictions_factors'' self original_df)
       (\<lambda>predictions_and_factors.
     concat_axis1 [original_df, predictions_and_factors] (index original_df))"

section \<open>The calls as state transformers\<close>

text \<open>
  Python passes frames by reference, and \<open>results[self.prediction_column] = ...\<close> writes
  into a frame in place. To see which object that statement writes to, the calls are given
  a second time over an explicit store: a world holds the object \<open>self\<close>, the frames
  allocated so far (a reference is a position in that list), the files written and the
  lines printed. Every pandas operation above returns a new frame, which is allocated at
  the end of the store; \<open>setitem\<close> alone updates a frame where it is. The collaborators
  are the pure functions of the first part: the pipeline, the predictor and
  \<open>top_k_features\<close> read the frame they are given and change nothing.
\<close>

record ('fm, 'fs) world =
  self_obj :: "'fm TrainedSupervisedModel"
  heap :: "dataframe list"
  files :: 'fs
  stdout :: "string list"

type_synonym ('fm, 'fs, 'a) call = "('fm, 'fs) world \<Rightarrow> (error + 'a) \<times> ('fm, 'fs) world"

definition st_then :: "('fm, 'fs, 'a) call \<Rightarrow> ('a \<Rightarrow> ('fm, 'fs, 'b) call) \<Rightarrow> ('fm, 'fs, 'b) call" where
  "st_then m f w = (case m w of (Inl e, w') \<Rightarrow> (Inl e, w') | (Inr x, w') \<Rightarrow> f x w')"

definition new_frame :: "error + dataframe \<Rightarrow> ('fm, 'fs, nat) call" where
  "new_frame r w =
     (case r of
        Inl e \<Rightarrow> (Inl e, w)
      | Inr df \<Rightarrow> (Inr (length (heap w)), w\<lparr>heap := heap w @ [df]\<rparr>))"

definition ref_transform :: "nat \<Rightarrow> ('fm, 'fs, nat) call" where
  "ref_transform a w = new_frame (transform (fit_pipeline (self_obj w)) (heap w ! a)) w"

definition ref_getitem_columns :: "nat \<Rightarrow> string list \<Rightarrow> ('fm, 'fs, nat) call" where
  "ref_getitem_columns a keys w = new_frame (getitem_columns (heap w ! a) keys) w"

definition ref_DataFrame :: "string list list \<Rightarrow> string list \<Rightarrow> label list \<Rightarrow> ('fm, 'fs, nat) call" where
  "ref_DataFrame data cols idx w = new_frame (DataFrame data cols idx) w"

definition ref_concat_axis1 :: "nat list \<Rightarrow> label list \<Rightarrow> ('fm, 'fs, nat) call" where
  "ref_concat_axis1 objs idx w = new_frame (concat_axis1 (map (\<lambda>r. heap w ! r) objs) idx) w"

definition ref_setitem :: "nat \<Rightarrow> string \<Rightarrow> cell list \<Rightarrow> ('fm, 'fs, unit) call" where
  "ref_setitem r key v w =
     (case setitem (heap w ! r) key v of
        Inl e \<Rightarrow> (Inl e, w)
      | Inr df \<Rightarrow> (Inr (), w\<lparr>heap := (heap w)[r := df]\<rparr>))"

text \<open>
  \<open>save\<close>: \<open>save_object_as_pickle\<close> of \<open>healthcareai.common.file_io_utilities\<close> is a
  parameter, a function of the file name, the object and the file system that fails or
  gives the file system with the object written; then one line is printed.
\<close>

definition save ::
  "(string \<Rightarrow> 'fm TrainedSupervisedModel \<Rightarrow> 'fs \<Rightarrow> error + 'fs) \<Rightarrow> string \<Rightarrow> ('fm, 'fs, unit) call" where
  "save save_object_as_pickle filename w =
     (case save_object_as_pickle filename (self_obj w) (files w) of
        Inl e \<Rightarrow> (Inl e, w)
      | Inr fs \<Rightarrow> (Inr (), w\<lparr>files := fs, stdout := stdout w @ [''Model saved as '' @ filename]\<rparr>))"

definition prepare_and_subset_st :: "nat \<Rightarrow> ('fm, 'fs, nat) call" where
  "prepare_and_subset_st dataframe w =
     (case st_then (ref_transform dataframe)
             (\<lambda>prepared_dataframe w1.
                ref_getitem_columns prepared_dataframe (column_names (self_obj w1)) w1) w of
        (Inl (KeyError ke), w') \<Rightarrow>
          (Inl (HealthcareAIError
                  (error_message (column_names (self_obj w')) (names (heap w' ! dataframe)) ke)), w')
      | (Inl e, w') \<Rightarrow> (Inl e, w')
      | (Inr prepared_dataframe, w') \<Rightarrow> (Inr prepared_dataframe, w'))"

definition make_predictions_st :: "nat \<Rightarrow> ('fm, 'fs, cell list) call" where
  "make_predictions_st dataframe =
     st_then (prepare_and_subset_st dataframe)
       (\<lambda>prepared_dataframe w1. (predict (model (self_obj w1)) (heap w1 ! prepared_dataframe), w1))"

definition make_factors_st :: "'fm top_k_features_fn \<Rightarrow> nat \<Rightarrow> int \<Rightarrow> ('fm, 'fs, nat) call" where
  "make_factors_st top_k_features dataframe number_top_features =
     st_then (prepare_and_subset_st dataframe) (\<lambda>prepared_dataframe.
     st_then (\<lambda>w1. ref_getitem_columns dataframe [grain_column (self_obj w1)] w1) (\<lambda>results.
     st_then (\<lambda>w2. (top_k_features (heap w2 ! prepared_dataframe) (feature_model (self_obj w2))
                       number_top_features, w2)) (\<lambda>top_features.
     st_then (\<lambda>w3. ref_DataFrame top_features (reason_col_names number_top_features)
                       (index (heap w3 ! dataframe)) w3) (\<lambda>reasons_df w4.
     ref_concat_axis1 [results, reasons_df] (index (heap w4 ! dataframe)) w4))))"

definition make_predictions_with_k_factors_st ::
  "'fm top_k_features_fn \<Rightarrow> nat \<Rightarrow> int \<Rightarrow> ('fm, 'fs, nat) call" where
  "make_predictions_with_k_factors_st top_k_features dataframe number_top_features =
     st_then (make_factors_st top_k_features dataframe number_top_features) (\<lambda>results.
     st_then (make_predictions_st dataframe) (\<lambda>predictions_list.
     st_then (\<lambda>w. ref_setitem results (prediction_column (self_obj w)) predictions_list w)
       (\<lambda>_ w. (Inr results, w))))"

definition frame_methods_st ::
  "'fm top_k_features_fn \<Rightarrow> (string \<times> (nat \<Rightarrow> ('fm, 'fs, nat) call)) list" where
  "frame_methods_st top_k_features =
     [(''make_factors'', \<lambda>df. make_factors_st top_k_features df 3),
      (''prepare_and_subset'', prepare_and_subset_st),
      (''make_predictions_with_k_factors'',
         \<lambda>df. make_predictions_with_k_factors_st top_k_features df 3)]"

definition call_frame_method_st ::
  "'fm top_k_features_fn \<Rightarrow> string \<Rightarrow> nat \<Rightarrow> ('fm, 'fs, nat) call" where
  "call_frame_method_st top_k_features name df w =
     (if name \<notin> set defined_attributes then (Inl (AttributeError name), w)
      else case map_of (frame_methods_st top_k_features) name of
             Some m \<Rightarrow> m df w
           | None \<Rightarrow> (Inl (OtherError ''TypeError''), w))"

definition create_all_st :: "'fm top_k_features_fn \<Rightarrow> nat \<Rightarrow> ('fm, 'fs, nat) call" where
  "create_all_st top_k_features original_df =
     st_then (call_frame_method_st top_k_features ''create_predictions_factors'' original_df)
       (\<lambda>predictions_and_factors w.
          ref_concat_axis1 [original_df, predictions_and_factors] (index (heap w ! original_df)) w)"

text \<open>What a call returned, with a reference replaced by the frame it points to.\<close>

definition deref :: "(error + nat) \<times> ('fm, 'fs) world \<Rightarrow> error + dataframe" where
  "deref rw = (case fst rw of Inl e \<Rightarrow> Inl e | Inr r \<Rightarrow> Inr (heap (snd rw) ! r))"

text \<open>
  The frame of a call: \<open>self\<close> is the object it was, and every frame that was in the store
  before the call is the frame it was.
\<close>

definition unchanged :: "('fm, 'fs) world \<Rightarrow> ('fm, 'fs) world \<Rightarrow> bool" where
  "unchanged w w' \<longleftrightarrow>
     self_obj w' = self_obj w \<and> length (heap w) \<le> length (heap w') \<and>
     take (length (heap w)) (heap w') = heap w"

text \<open>
  A call that started in the world \<open>w\<close> and ended as \<open>rw\<close> returns \<open>v\<close>: the world is
  unchanged in the sense above, the result is the error \<open>v\<close> or a reference to the frame
  \<open>v\<close>, and a reference that is returned points to a frame allocated during the call.
\<close>

definition returns ::
  "('fm, 'fs) world \<Rightarrow> (error + nat) \<times> ('fm, 'fs) world \<Rightarrow> error + dataframe \<Rightarrow> bool" where
  "returns w rw v \<longleftrightarrow>
     unchanged w (snd rw) \<and> deref rw = v \<and>
     (\<forall>r. fst rw = Inr r \<longrightarrow> length (heap w) \<le> r \<and> r < length (heap (snd rw)))"

section \<open>A scoring scenario\<close>

text \<open>
  The scenario of the specification: a model trained on \<open>age\<close> and \<open>bp\<close> with the
  identifier \<open>id\<close>, and a table of three rows with the columns \<open>id\<close>, \<open>age\<close>, \<open>bp\<close>
  and \<open>notes\<close>. The pipeline passes the table through; the predictor scores each row
  on its own; the attribution names the first columns of the prepared table for every row.
\<close>

definition example_table :: dataframe where
  "example_table = \<lparr>index = [0, 1, 2],
      columns = [(''id'', [Num 101, Num 102, Num 103]),
                 (''age'', [Num 30, Num 41, Num 52]),
                 (''bp'', [Num 120, Num 135, Num 110]),
                 (''notes'', [Txt ''a'', Txt ''b'', NaN])]\<rparr>"

definition identity_pipeline :: pipeline where
  "identity_pipeline = \<lparr>transform = (\<lambda>df. Inr df)\<rparr>"

definition score :: "(string \<times> cell) list \<Rightarrow> cell" where
  "score r = (case map_of r ''age'' of Some (Num a) \<Rightarrow> Num (2 * a) | _ \<Rightarrow> NaN)"

definition example_predictor :: predictor where
  "example_predictor = \<lparr>predict = (\<lambda>df. Inr (map score (rows df))),
                         predict_proba = (\<lambda>df. Inl (OtherError ''predict_proba''))\<rparr>"

definition example_top_k :: "unit top_k_features_fn" where
  "example_top_k df fm k = Inr (map (\<lambda>_. take (nat k) (names df)) (index df))"

definition example_model :: "unit TrainedSupervisedModel" where
  "example_model = \<lparr>model = example_predictor, feature_model = (),
      fit_pipeline = identity_pipeline, column_names = [''age'', ''bp''],
      model_type = ''classification'', grain_column = ''id'',
      prediction_column = ''pred'', y_pred = [], y_actual = []\<rparr>"

text \<open>The same table without the column \<open>bp\<close>, and one with neither \<open>id\<close> nor \<open>bp\<close>.\<close>

definition table_without_bp :: dataframe where
  "table_without_bp = \<lparr>index = [0, 1, 2],
      columns = [(''id'', [Num 101, Num 102, Num 103]),
                 (''age'', [Num 30, Num 41, Num 52])]\<rparr>"

definition table_without_id :: dataframe where
  "table_without_id = \<lparr>index = [0, 1, 2],
      columns = [(''age'', [Num 30, Num 41, Num 52]),
                 (''bp'', [Num 120, Num 135, Num 110])]\<rparr>"

definition table_age_only :: dataframe where
  "table_age_only = \<lparr>index = [0, 1, 2],
      columns = [(''age'', [Num 30, Num 41, Num 52])]\<rparr>"

text \<open>
  A pipeline whose transform reads the column \<open>dob\<close> of the raw table, as a fitted step
  that derives a feature from it would, and a model that uses it.
\<close>

definition dob_pipeline :: pipeline where
  "dob_pipeline = \<lparr>transform = (\<lambda>df. and_then (getitem_columns df [''dob'']) (\<lambda>_. Inr df))\<rparr>"

definition dob_model :: "unit TrainedSupervisedModel" where
  "dob_model = example_model\<lparr>fit_pipeline := dob_pipeline\<rparr>"

text \<open>A model whose prediction column has the name of its identifier column.\<close>

definition clash_model :: "unit TrainedSupervisedModel" where
  "clash_model = example_model\<lparr>prediction_column := ''id''\<rparr>"

text \<open>A world holding the scenario: the model as \<open>self\<close> and the table at reference 0.\<close>

definition example_world :: "(unit, (string \<times> unit TrainedSupervisedModel) list) world" where
  "example_world = \<lparr>self_obj = example_model, heap = [example_table], files = [], stdout = []\<rparr>"

definition write_file ::
  "string \<Rightarrow> unit TrainedSupervisedModel \<Rightarrow> (string \<times> unit TrainedSupervisedModel) list
   \<Rightarrow> error + (string \<times> unit TrainedSupervisedModel) list" where
  "write_file filename obj fs = Inr ((filename, obj) # fs)"

section \<open>Facts about the formatting and the pandas operations\<close>

lemma and_then_simps [simp]:
  "and_then (Inl e) f = Inl e" "and_then (Inr x) f = f x"
  by (simp_all add: and_then_def)

lemma escape_plain:
  assumes "c \<noteq> backslash" "c \<noteq> q" "printable_char c"
  shows "py_escape_char q c = [c]"
proof -
  have "(32::nat) \<le> of_char c" using assms(3) by (simp add: printable_char_def)
  then have "c \<noteq> CHR 0x0A" "c \<noteq> CHR 0x0D" "c \<noteq> CHR 0x09" by auto
  then show ?thesis using assms by (simp add: py_escape_char_def)
qed

lemma concat_escape_plain:
  assumes "\<forall>c\<in>set s. c \<noteq> backslash \<and> c \<noteq> q \<and> printable_char c"
  shows "concat (map (py_escape_char q) s) = s"
  using assms by (induction s) (simp_all add: escape_plain)

lemma py_repr_plain:
  assumes "plain_name s"
  shows "\<exists>q. py_repr s = q # s @ [q]"
proof -
  let ?q = "if squote \<in> set s \<and> dquote \<notin> set s then dquote else squote"
  have "\<forall>c\<in>set s. c \<noteq> backslash \<and> c \<noteq> ?q \<and> printable_char c"
    using assms by (auto simp: plain_name_def list_all_iff)
  then have "concat (map (py_escape_char ?q) s) = s" by (rule concat_escape_plain)
  then show ?thesis by (simp add: py_repr_def Let_def)
qed

lemma sublist_py_repr: "plain_name s \<Longrightarrow> sublist s (py_repr s)"
proof -
  assume "plain_name s"
  then obtain q where "py_repr s = q # s @ [q]" using py_repr_plain by blast
  then have "py_repr s = [q] @ s @ [q]" by simp
  then show ?thesis by (metis sublist_appendI)
qed

lemma bare_name_plain: "bare_name s \<Longrightarrow> plain_name s"
  by (auto simp: bare_name_def plain_name_def list_all_iff)

lemma sublist_trans': "sublist a b \<Longrightarrow> sublist b c \<Longrightarrow> sublist a c"
  using sublist_order.order_trans by blast

lemma sublist_set: "sublist c s \<Longrightarrow> set c \<subseteq> set s"
  by (auto simp: sublist_def)

lemma sublist_inside_py_repr:
  assumes "sublist c s" "bare_name c"
  shows "sublist c (py_repr s)"
proof -
  let ?q = "if squote \<in> set s \<and> dquote \<notin> set s then dquote else squote"
  have q: "\<forall>x\<in>set c. x \<noteq> ?q"
    using assms sublist_set [OF assms(1)] by (auto simp: bare_name_def list_all_iff)
  have "\<forall>x\<in>set c. x \<noteq> backslash \<and> x \<noteq> ?q \<and> printable_char x"
    using assms(2) q by (auto simp: bare_name_def list_all_iff)
  then have c: "concat (map (py_escape_char ?q) c) = c" by (rule concat_escape_plain)
  obtain ps ss where s: "s = ps @ c @ ss" using assms(1) by (auto simp: sublist_def)
  have "py_repr s =
      (?q # concat (map (py_escape_char ?q) ps)) @ c @ (concat (map (py_escape_char ?q) ss) @ [?q])"
    unfolding py_repr_def Let_def using c by (simp add: s)
  then show ?thesis by (metis sublist_appendI)
qed

lemma sublist_join_str: "x \<in> set xs \<Longrightarrow> sublist x (join_str sep xs)"
proof (induction sep xs rule: join_str.induct)
  case (1 sep) then show ?case by simp
next
  case (2 sep y) then show ?case by simp
next
  case (3 sep y z zs)
  show ?case
  proof (cases "x = y")
    case True then show ?thesis by simp
  next
    case False
    then have "sublist x (join_str sep (z # zs))" using 3 by simp
    then obtain ps ss where "join_str sep (z # zs) = ps @ x @ ss" by (auto simp: sublist_def)
    then have "join_str sep (y # z # zs) = (y @ sep @ ps) @ x @ ss" by simp
    then show ?thesis unfolding sublist_def by blast
  qed
qed

lemma sublist_name_py_str_list:
  assumes "c \<in> set xs" "plain_name c"
  shows "sublist c (py_str_list xs)"
proof -
  have "sublist c (py_repr c)" using assms(2) by (rule sublist_py_repr)
  moreover have "sublist (py_repr c) (join_str '', '' (map py_repr xs))"
    using assms(1) by (intro sublist_join_str) simp
  moreover have "sublist (join_str '', '' (map py_repr xs)) (py_str_list xs)"
    unfolding py_str_list_def by (rule sublist_appendI)
  ultimately show ?thesis by (blast intro: sublist_trans')
qed

lemma sublist_name_np_str:
  assumes "c \<in> set xs" "plain_name c"
  shows "sublist c (np_str xs)"
proof -
  have "sublist c (py_repr c)" using assms(2) by (rule sublist_py_repr)
  moreover have "sublist (py_repr c) (join_str '' '' (map py_repr xs))"
    using assms(1) by (intro sublist_join_str) simp
  moreover have "sublist (join_str '' '' (map py_repr xs)) (np_str xs)"
    unfolding np_str_def by (rule sublist_appendI)
  ultimately show ?thesis by (blast intro: sublist_trans')
qed

lemma message_required:
  "sublist (''Required fields: '' @ py_str_list required) (error_message required given ke)"
proof -
  have "error_message required given ke =
        message_intro @ (''Required fields: '' @ py_str_list required)
        @ (message_sep @ ''Given fields: '' @ py_str_list given @ message_sep
           @ ''Likely missing field(s): '' @ str_KeyError ke @ message_tail)"
    by (simp add: error_message_def)
  then show ?thesis by (metis sublist_appendI)
qed

lemma message_given_fields:
  "sublist (''Given fields: '' @ py_str_list given) (error_message required given ke)"
proof -
  have "error_message required given ke =
        (message_intro @ ''Required fields: '' @ py_str_list required @ message_sep)
        @ (''Given fields: '' @ py_str_list given)
        @ (message_sep @ ''Likely missing field(s): '' @ str_KeyError ke @ message_tail)"
    by (simp add: error_message_def)
  then show ?thesis by (metis sublist_appendI)
qed

lemma message_key_error:
  "suffix (''Likely missing field(s): '' @ str_KeyError ke @ message_tail)
     (error_message required given ke)"
proof -
  have "error_message required given ke =
        (message_intro @ ''Required fields: '' @ py_str_list required @ message_sep
           @ ''Given fields: '' @ py_str_list given @ message_sep)
        @ (''Likely missing field(s): '' @ str_KeyError ke @ message_tail)"
    by (simp add: error_message_def)
  then show ?thesis by (metis suffixI)
qed

lemma sublist_name_KeyError:
  assumes "c \<in> set missing" "bare_name c"
  shows "sublist c (str_KeyError (np_str missing @ '' not in index''))"
proof -
  have "sublist c (np_str missing)"
    using assms by (simp add: sublist_name_np_str bare_name_plain)
  moreover have "sublist (np_str missing) (np_str missing @ '' not in index'')"
    by (rule sublist_append_rightI)
  ultimately have "sublist c (np_str missing @ '' not in index'')"
    by (rule sublist_trans')
  then show ?thesis
    unfolding str_KeyError_def using assms(2) by (rule sublist_inside_py_repr)
qed

lemma getitem_columns_ok:
  "set keys \<subseteq> set (names df) \<Longrightarrow>
   getitem_columns df keys =
     Inr \<lparr>index = index df, columns = concat (map (\<lambda>k. filter (\<lambda>c. fst c = k) (columns df)) keys)\<rparr>"
  by (auto simp: getitem_columns_def Let_def filter_empty_conv)

lemma getitem_columns_missing:
  "\<not> set keys \<subseteq> set (names df) \<Longrightarrow>
   getitem_columns df keys =
     Inl (KeyError (np_str (filter (\<lambda>k. k \<notin> set (names df)) keys) @ '' not in index''))"
  by (auto simp: getitem_columns_def Let_def filter_empty_conv)

lemma prepare_and_subset_pipeline_KeyError:
  "transform (fit_pipeline h) df = Inl (KeyError ke) \<Longrightarrow>
   prepare_and_subset h df = Inl (HealthcareAIError (error_message (column_names h) (names df) ke))"
  by (simp add: prepare_and_subset_def)

lemma prepare_and_subset_pipeline_error:
  "transform (fit_pipeline h) df = Inl e \<Longrightarrow> (\<forall>ke. e \<noteq> KeyError ke) \<Longrightarrow>
   prepare_and_subset h df = Inl e"
  by (cases e) (simp_all add: prepare_and_subset_def)

lemma prepare_and_subset_ok:
  "transform (fit_pipeline h) df = Inr t \<Longrightarrow> set (column_names h) \<subseteq> set (names t) \<Longrightarrow>
   prepare_and_subset h df =
     Inr \<lparr>index = index t,
          columns = concat (map (\<lambda>k. filter (\<lambda>c. fst c = k) (columns t)) (column_names h))\<rparr>"
  by (simp add: prepare_and_subset_def getitem_columns_ok)

lemma prepare_and_subset_missing:
  "transform (fit_pipeline h) df = Inr t \<Longrightarrow> \<not> set (column_names h) \<subseteq> set (names t) \<Longrightarrow>
   prepare_and_subset h df =
     Inl (HealthcareAIError (error_message (column_names h) (names df)
            (np_str (filter (\<lambda>k. k \<notin> set (names t)) (column_names h)) @ '' not in index'')))"
  by (simp add: prepare_and_subset_def getitem_columns_missing)

lemma filter_name_distinct:
  "distinct (map fst cols) \<Longrightarrow> k \<in> set (map fst cols) \<Longrightarrow>
   map fst (filter (\<lambda>c. fst c = k) cols) = [k]"
proof (induction cols)
  case Nil then show ?case by simp
next
  case (Cons c cols)
  show ?case
  proof (cases "fst c = k")
    case True
    then have "k \<notin> set (map fst cols)" using Cons.prems(1) by auto
    then have "filter (\<lambda>c. fst c = k) cols = []" by (auto simp: filter_empty_conv)
    then show ?thesis using True by simp
  next
    case False
    then show ?thesis using Cons by auto
  qed
qed

lemma names_project_distinct:
  "distinct (map fst cols) \<Longrightarrow> set keys \<subseteq> set (map fst cols) \<Longrightarrow>
   map fst (concat (map (\<lambda>k. filter (\<lambda>c. fst c = k) cols) keys)) = keys"
  by (induction keys) (simp_all add: filter_name_distinct)

lemma names_project_subset:
  "set (map fst (concat (map (\<lambda>k. filter (\<lambda>c. fst c = k) cols) keys))) \<subseteq> set keys"
  by (induction keys) auto

lemma map_of_filter_name:
  "map_of (filter (\<lambda>c. fst c = k) cols) c = (if c = k then map_of cols c else None)"
  by (induction cols) auto

lemma map_of_project:
  "map_of (concat (map (\<lambda>k. filter (\<lambda>c. fst c = k) cols) keys)) c =
     (if c \<in> set keys then map_of cols c else None)"
proof (induction keys)
  case Nil then show ?case by simp
next
  case (Cons k keys)
  then show ?case
    by (auto simp: map_of_filter_name map_add_def split: option.splits)
qed

lemma length_reason_col_names: "length (reason_col_names k) = nat k"
  by (simp add: reason_col_names_def)

lemma getitem_columns_Inr:
  assumes "getitem_columns df keys = Inr g"
  shows "index g = index df"
    and "columns g = concat (map (\<lambda>k. filter (\<lambda>c. fst c = k) (columns df)) keys)"
    and "set keys \<subseteq> set (names df)"
  using assms by (auto simp: getitem_columns_def Let_def filter_empty_conv split: if_splits)

lemma foldr_max_upper: "r \<in> set xs \<Longrightarrow> (r::nat) \<le> foldr max xs 0"
  by (induction xs) (auto simp: max_def)

lemma foldr_max_const: "xs \<noteq> [] \<Longrightarrow> \<forall>x\<in>set xs. x = n \<Longrightarrow> foldr max xs 0 = (n::nat)"
proof (induction xs)
  case Nil then show ?case by simp
next
  case (Cons x xs)
  show ?case
  proof (cases "xs = []")
    case True then show ?thesis using Cons.prems by simp
  next
    case False then show ?thesis using Cons by simp
  qed
qed

lemma DataFrame_Inr:
  assumes "DataFrame data cols idx = Inr rdf"
  shows "index rdf = idx"
    and "names rdf = cols"
    and "length (columns rdf) = length cols"
    and "data \<noteq> [] \<Longrightarrow> cols \<noteq> [] \<Longrightarrow> length data = length idx"
    and "data \<noteq> [] \<Longrightarrow> j < length cols \<Longrightarrow>
           columns rdf ! j = (cols ! j, map (\<lambda>r. if j < length r then Txt (r ! j) else NaN) data)"
    and "data \<noteq> [] \<Longrightarrow> length cols = foldr max (map length data) 0"
    and "list_all (\<lambda>c. length (snd c) = length idx) (columns rdf)"
proof -
  show "index rdf = idx"
    using assms by (auto simp: DataFrame_def Let_def split: if_splits)
  show n: "names rdf = cols"
  proof (cases "data = []")
    case True
    then show ?thesis using assms by (auto simp: DataFrame_def names_def comp_def)
  next
    case False
    then have w: "foldr max (map length data) 0 = length cols"
      and r: "rdf = \<lparr>index = idx,
                columns = map (\<lambda>j. (cols ! j,
                            map (\<lambda>r. if j < length r then Txt (r ! j) else NaN) data))
                          [0..<foldr max (map length data) 0]\<rparr>"
      using assms by (auto simp: DataFrame_def Let_def split: if_splits)
    have "names rdf = map (\<lambda>j. cols ! j) [0..<length cols]"
      unfolding r w by (simp add: names_def comp_def)
    then show ?thesis by (simp add: map_nth)
  qed
  then show "length (columns rdf) = length cols"
    by (metis length_map names_def)
  show "data \<noteq> [] \<Longrightarrow> cols \<noteq> [] \<Longrightarrow> length data = length idx"
    using assms by (auto simp: DataFrame_def Let_def split: if_splits)
  show "data \<noteq> [] \<Longrightarrow> j < length cols \<Longrightarrow>
           columns rdf ! j = (cols ! j, map (\<lambda>r. if j < length r then Txt (r ! j) else NaN) data)"
    using assms by (auto simp: DataFrame_def Let_def split: if_splits)
  show "data \<noteq> [] \<Longrightarrow> length cols = foldr max (map length data) 0"
    using assms by (auto simp: DataFrame_def Let_def split: if_splits)
  show "list_all (\<lambda>c. length (snd c) = length idx) (columns rdf)"
    using assms by (auto simp: DataFrame_def Let_def list_all_iff split: if_splits)
qed

lemma DataFrame_ok:
  assumes "length data = length idx" "\<forall>r\<in>set data. length r = length cols"
  shows "\<exists>rdf. DataFrame data cols idx = Inr rdf"
proof (cases "data = []")
  case True then show ?thesis by (simp add: DataFrame_def)
next
  case False
  then have "foldr max (map length data) 0 = length cols"
    using assms(2) by (intro foldr_max_const) auto
  then show ?thesis using False assms(1) by (simp add: DataFrame_def Let_def)
qed

lemma concat_axis1_two:
  "index a = idx \<Longrightarrow> index b = idx \<Longrightarrow>
   concat_axis1 [a, b] idx = Inr \<lparr>index = idx, columns = columns a @ columns b\<rparr>"
  by (simp add: concat_axis1_def reindex_def)

lemma make_factors_Inr:
  assumes "make_factors top_k_features self df k = Inr res"
  obtains p g tf rdf where
    "prepare_and_subset self df = Inr p"
    "getitem_columns df [grain_column self] = Inr g"
    "top_k_features p (feature_model self) k = Inr tf"
    "DataFrame tf (reason_col_names k) (index df) = Inr rdf"
    "res = \<lparr>index = index df, columns = columns g @ columns rdf\<rparr>"
proof -
  from assms obtain p where p: "prepare_and_subset self df = Inr p"
    by (cases "prepare_and_subset self df") (simp_all add: make_factors_def)
  from assms p obtain g where g: "getitem_columns df [grain_column self] = Inr g"
    by (cases "getitem_columns df [grain_column self]") (simp_all add: make_factors_def)
  from assms p g obtain tf where tf: "top_k_features p (feature_model self) k = Inr tf"
    by (cases "top_k_features p (feature_model self) k") (simp_all add: make_factors_def)
  from assms p g tf obtain rdf where
    rdf: "DataFrame tf (reason_col_names k) (index df) = Inr rdf"
    by (cases "DataFrame tf (reason_col_names k) (index df)") (simp_all add: make_factors_def)
  have "index g = index df" using g by (rule getitem_columns_Inr)
  moreover have "index rdf = index df" using rdf by (rule DataFrame_Inr)
  ultimately have "res = \<lparr>index = index df, columns = columns g @ columns rdf\<rparr>"
    using assms p g tf rdf by (simp add: make_factors_def concat_axis1_two)
  then show ?thesis using that p g tf rdf by blast
qed

lemma make_factors_ok:
  assumes "prepare_and_subset self df = Inr p"
    "getitem_columns df [grain_column self] = Inr g"
    "top_k_features p (feature_model self) k = Inr tf"
    "DataFrame tf (reason_col_names k) (index df) = Inr rdf"
  shows "make_factors top_k_features self df k =
           Inr \<lparr>index = index df, columns = columns g @ columns rdf\<rparr>"
proof -
  have "index g = index df" using assms(2) by (rule getitem_columns_Inr)
  moreover have "index rdf = index df" using assms(4) by (rule DataFrame_Inr)
  ultimately show ?thesis using assms by (simp add: make_factors_def concat_axis1_two)
qed

lemma reason_col_names_nth:
  "j < nat k \<Longrightarrow> reason_col_names k ! j = ''Factor'' @ py_str_int (int j + 1) @ ''TXT''"
  by (simp add: reason_col_names_def add.commute)

lemma row_cells_filter:
  "map (\<lambda>(c, vs). (c, if i < length vs then vs ! i else NaN)) (filter (\<lambda>c. fst c = k) cols) =
   filter (\<lambda>c. fst c = k) (map (\<lambda>(c, vs). (c, if i < length vs then vs ! i else NaN)) cols)"
  by (induction cols) auto

lemma row_project:
  assumes "columns p = concat (map (\<lambda>k. filter (\<lambda>c. fst c = k) (columns t)) keys)"
  shows "row p i = concat (map (\<lambda>k. filter (\<lambda>c. fst c = k) (row t i)) keys)"
  by (simp add: row_def assms map_concat comp_def row_cells_filter)

section \<open>Facts about the calls over the store\<close>

lemma unchanged_refl: "unchanged w w"
  by (simp add: unchanged_def)

lemma unchanged_trans: "unchanged w w1 \<Longrightarrow> unchanged w1 w2 \<Longrightarrow> unchanged w w2"
proof -
  assume a: "unchanged w w1" and b: "unchanged w1 w2"
  have "take (length (heap w)) (heap w2) =
        take (length (heap w)) (take (length (heap w1)) (heap w2))"
    using a by (simp add: unchanged_def min_def)
  also have "\<dots> = heap w" using a b by (simp add: unchanged_def)
  finally show ?thesis using a b by (simp add: unchanged_def)
qed

lemma unchanged_nth: "unchanged w w' \<Longrightarrow> a < length (heap w) \<Longrightarrow> heap w' ! a = heap w ! a"
  by (metis nth_take unchanged_def)

lemma unchanged_self: "unchanged w w' \<Longrightarrow> self_obj w' = self_obj w"
  by (simp add: unchanged_def)

lemma new_frame_returns: "returns w (new_frame r w) r"
  by (cases r) (simp_all add: returns_def new_frame_def unchanged_def deref_def)

lemma new_frame_Inl: "new_frame (Inl e) w = (Inl e, w)"
  by (simp add: new_frame_def)

lemma new_frame_Inr: "new_frame (Inr d) w = (Inr (length (heap w)), w\<lparr>heap := heap w @ [d]\<rparr>)"
  by (simp add: new_frame_def)

lemma prepare_and_subset_st_returns:
  assumes "a < length (heap w)"
  shows "returns w (prepare_and_subset_st a w) (prepare_and_subset (self_obj w) (heap w ! a))"
proof (cases "transform (fit_pipeline (self_obj w)) (heap w ! a)")
  case (Inl e)
  then show ?thesis
    by (cases e)
       (simp_all add: prepare_and_subset_st_def prepare_and_subset_def st_then_def
          ref_transform_def new_frame_Inl returns_def unchanged_def deref_def)
next
  case (Inr t)
  show ?thesis
  proof (cases "getitem_columns t (column_names (self_obj w))")
    case (Inl e)
    then show ?thesis using Inr assms
      by (cases e)
         (simp_all add: prepare_and_subset_st_def prepare_and_subset_def st_then_def
            ref_transform_def ref_getitem_columns_def new_frame_Inl new_frame_Inr
            returns_def unchanged_def deref_def nth_append)
  next
    case (Inr p)
    then show ?thesis using \<open>transform (fit_pipeline (self_obj w)) (heap w ! a) = Inr t\<close> assms
      by (simp add: prepare_and_subset_st_def prepare_and_subset_def st_then_def
            ref_transform_def ref_getitem_columns_def new_frame_Inr
            returns_def unchanged_def deref_def nth_append)
  qed
qed


lemma st_then_Inl: "m w = (Inl e, w') \<Longrightarrow> st_then m f w = (Inl e, w')"
  by (simp add: st_then_def)

lemma st_then_Inr: "m w = (Inr x, w') \<Longrightarrow> st_then m f w = f x w'"
  by (simp add: st_then_def)

lemma returns_Inl:
  assumes "returns w rw (Inl e)"
  obtains w' where "rw = (Inl e, w')" "unchanged w w'"
  using assms by (cases rw) (auto simp: returns_def deref_def split: sum.splits)

lemma returns_Inr:
  assumes "returns w rw (Inr d)"
  obtains r w' where "rw = (Inr r, w')" "unchanged w w'" "length (heap w) \<le> r"
    "r < length (heap w')" "heap w' ! r = d"
  using assms by (cases rw) (auto simp: returns_def deref_def split: sum.splits)

lemma returns_error: "unchanged w w' \<Longrightarrow> returns w (Inl e, w') (Inl e)"
  by (simp add: returns_def deref_def)

lemma unchanged_alloc: "unchanged w w' \<Longrightarrow> unchanged w (w'\<lparr>heap := heap w' @ [d]\<rparr>)"
  by (simp add: unchanged_def)

lemma returns_alloc:
  "unchanged w w' \<Longrightarrow> returns w (Inr (length (heap w')), w'\<lparr>heap := heap w' @ [d]\<rparr>) (Inr d)"
  by (simp add: returns_def deref_def unchanged_def)

lemma returns_new_frame:
  "unchanged w w' \<Longrightarrow> returns w (new_frame r w') r"
  by (cases r) (simp_all add: new_frame_def returns_error returns_alloc)

lemma make_factors_st_returns:
  assumes a: "a < length (heap w)"
  shows "returns w (make_factors_st top_k_features a k w)
           (make_factors top_k_features (self_obj w) (heap w ! a) k)"
proof (cases "prepare_and_subset (self_obj w) (heap w ! a)")
  case (Inl e)
  then obtain w1 where "prepare_and_subset_st a w = (Inl e, w1)" "unchanged w w1"
    using prepare_and_subset_st_returns [OF a] returns_Inl by metis
  then show ?thesis using Inl
    by (simp add: make_factors_st_def make_factors_def st_then_Inl returns_error)
next
  case (Inr p)
  then obtain rp w1 where s1: "prepare_and_subset_st a w = (Inr rp, w1)"
    and u1: "unchanged w w1" and rp: "rp < length (heap w1)" "heap w1 ! rp = p"
    using prepare_and_subset_st_returns [OF a] returns_Inr by metis
  have self1: "self_obj w1 = self_obj w" using u1 by (rule unchanged_self)
  have a1: "heap w1 ! a = heap w ! a" "a < length (heap w1)"
    using u1 a unchanged_nth by (auto simp: unchanged_def)
  show ?thesis
  proof (cases "getitem_columns (heap w ! a) [grain_column (self_obj w)]")
    case (Inl e)
    then show ?thesis using Inr s1 u1 self1 a1
      by (simp add: make_factors_st_def make_factors_def st_then_Inr st_then_def
          ref_getitem_columns_def new_frame_Inl returns_error)
  next
    case g: (Inr g)
    let ?w2 = "w1\<lparr>heap := heap w1 @ [g]\<rparr>"
    have u2: "unchanged w ?w2" using u1 by (rule unchanged_alloc)
    show ?thesis
    proof (cases "top_k_features p (feature_model (self_obj w)) k")
      case (Inl e)
      then show ?thesis using Inr g s1 u2 self1 a1 rp
        by (simp add: make_factors_st_def make_factors_def st_then_Inr st_then_def
            ref_getitem_columns_def new_frame_Inr nth_append returns_error)
    next
      case tf: (Inr tf)
      show ?thesis
      proof (cases "DataFrame tf (reason_col_names k) (index (heap w ! a))")
        case (Inl e)
        then show ?thesis using Inr g tf s1 u2 self1 a1 rp
          by (simp add: make_factors_st_def make_factors_def st_then_Inr st_then_def
              ref_getitem_columns_def ref_DataFrame_def new_frame_Inl new_frame_Inr nth_append
              returns_error)
      next
        case rdf: (Inr rdf)
        let ?w3 = "?w2\<lparr>heap := heap ?w2 @ [rdf]\<rparr>"
        have u3: "unchanged w ?w3" using u2 by (rule unchanged_alloc)
        have "make_factors_st top_k_features a k w =
                new_frame (concat_axis1 [g, rdf] (index (heap w ! a))) ?w3"
          using Inr g tf rdf s1 self1 a1 rp
          by (simp add: make_factors_st_def st_then_Inr st_then_def
              ref_getitem_columns_def ref_DataFrame_def ref_concat_axis1_def new_frame_Inr
              nth_append)
        moreover have "make_factors top_k_features (self_obj w) (heap w ! a) k =
                concat_axis1 [g, rdf] (index (heap w ! a))"
          using Inr g tf rdf by (simp add: make_factors_def)
        ultimately show ?thesis using returns_new_frame [OF u3] by simp
      qed
    qed
  qed
qed

lemma make_predictions_st_result:
  assumes a: "a < length (heap w)"
  shows "unchanged w (snd (make_predictions_st a w)) \<and>
         fst (make_predictions_st a w) = make_predictions (self_obj w) (heap w ! a)"
proof (cases "prepare_and_subset (self_obj w) (heap w ! a)")
  case (Inl e)
  then obtain w1 where "prepare_and_subset_st a w = (Inl e, w1)" "unchanged w w1"
    using prepare_and_subset_st_returns [OF a] returns_Inl by metis
  then show ?thesis using Inl
    by (simp add: make_predictions_st_def make_predictions_def st_then_Inl)
next
  case (Inr p)
  then obtain rp w1 where s1: "prepare_and_subset_st a w = (Inr rp, w1)"
    and u1: "unchanged w w1" and rp: "rp < length (heap w1)" "heap w1 ! rp = p"
    using prepare_and_subset_st_returns [OF a] returns_Inr by metis
  have self1: "self_obj w1 = self_obj w" using u1 by (rule unchanged_self)
  show ?thesis using Inr s1 u1 rp self1
    by (simp add: make_predictions_st_def make_predictions_def st_then_Inr)
qed


lemma unchanged_update:
  assumes "unchanged w w'" "length (heap w) \<le> r"
  shows "unchanged w (w'\<lparr>heap := (heap w')[r := d]\<rparr>)"
  using assms by (simp add: unchanged_def)

lemma make_predictions_with_k_factors_st_returns:
  assumes a: "a < length (heap w)"
  shows "returns w (make_predictions_with_k_factors_st top_k_features a k w)
           (make_predictions_with_k_factors top_k_features (self_obj w) (heap w ! a) k)"
proof (cases "make_factors top_k_features (self_obj w) (heap w ! a) k")
  case (Inl e)
  then obtain w1 where "make_factors_st top_k_features a k w = (Inl e, w1)" "unchanged w w1"
    using make_factors_st_returns [OF a] returns_Inl by metis
  then show ?thesis using Inl
    by (simp add: make_predictions_with_k_factors_st_def make_predictions_with_k_factors_def
        st_then_Inl returns_error)
next
  case (Inr res)
  then obtain r w1 where s1: "make_factors_st top_k_features a k w = (Inr r, w1)"
    and u1: "unchanged w w1" and r: "length (heap w) \<le> r" "r < length (heap w1)"
    and res: "heap w1 ! r = res"
    using make_factors_st_returns [OF a] returns_Inr by metis
  have self1: "self_obj w1 = self_obj w" using u1 by (rule unchanged_self)
  have a1: "heap w1 ! a = heap w ! a" "a < length (heap w1)"
    using u1 a unchanged_nth by (auto simp: unchanged_def)
  obtain v w2 where s2: "make_predictions_st a w1 = (v, w2)"
    by (cases "make_predictions_st a w1")
  have u12: "unchanged w1 w2" and v: "v = make_predictions (self_obj w) (heap w ! a)"
    using make_predictions_st_result [OF a1(2)] s2 self1 a1 by simp_all
  have u2: "unchanged w w2" using u1 u12 by (rule unchanged_trans)
  have self2: "self_obj w2 = self_obj w" using u2 by (rule unchanged_self)
  have r2: "heap w2 ! r = res" "r < length (heap w2)"
    using u12 r res unchanged_nth by (auto simp: unchanged_def)
  show ?thesis
  proof (cases v)
    case (Inl e)
    then show ?thesis using Inr s1 s2 v u2
      by (simp add: make_predictions_with_k_factors_st_def make_predictions_with_k_factors_def
          st_then_Inr st_then_Inl returns_error)
  next
    case ys: (Inr ys)
    show ?thesis
    proof (cases "setitem res (prediction_column (self_obj w)) ys")
      case (Inl e)
      then show ?thesis using Inr ys s1 s2 v u2 r2 self2
        by (simp add: make_predictions_with_k_factors_st_def make_predictions_with_k_factors_def
            st_then_Inr st_then_def ref_setitem_def returns_error)
    next
      case d: (Inr d)
      let ?w3 = "w2\<lparr>heap := (heap w2)[r := d]\<rparr>"
      have u3: "unchanged w ?w3" using u2 r(1) by (rule unchanged_update)
      have "make_predictions_with_k_factors_st top_k_features a k w = (Inr r, ?w3)"
        using ys d s1 s2 r2 self2
        by (simp add: make_predictions_with_k_factors_st_def st_then_Inr st_then_def
            ref_setitem_def)
      moreover have "make_predictions_with_k_factors top_k_features (self_obj w) (heap w ! a) k
          = Inr d"
        using Inr ys d v by (simp add: make_predictions_with_k_factors_def)
      moreover have "returns w (Inr r, ?w3) (Inr d)"
        using u3 r r2 by (simp add: returns_def deref_def)
      ultimately show ?thesis by simp
    qed
  qed
qed

lemma create_all_st_returns:
  "returns w (create_all_st top_k_features a w)
     (create_all top_k_features (self_obj w) (heap w ! a))"
  by (simp add: create_all_st_def create_all_def call_frame_method_st_def call_frame_method_def
      defined_attributes_def st_then_def returns_error unchanged_refl)

lemma save_unchanged:
  "unchanged w (snd (save save_object_as_pickle filename w)) \<and>
   heap (snd (save save_object_as_pickle filename w)) = heap w"
  by (simp add: save_def unchanged_def split: sum.splits)

section \<open>The scenario, evaluated\<close>

lemmas scenario_defs =
  example_model_def example_table_def example_predictor_def identity_pipeline_def
  table_without_bp_def table_without_id_def table_age_only_def dob_model_def dob_pipeline_def
  clash_model_def

lemmas repr_defs =
  np_str_def py_str_list_def py_repr_def py_escape_char_def printable_char_def squote_def dquote_def
  backslash_def
  Let_def

lemma bare_name_bp: "bare_name ''bp''"
  by (simp add: bare_name_def printable_char_def squote_def backslash_def)

lemma prepare_without_bp:
  "prepare_and_subset example_model table_without_bp =
     Inl (HealthcareAIError (error_message [''age'', ''bp''] [''id'', ''age'']
            ''['bp'] not in index''))"
  by (simp add: prepare_and_subset_def scenario_defs names_def getitem_columns_def repr_defs)

lemma prepare_example:
  "prepare_and_subset example_model example_table =
     Inr \<lparr>index = [0, 1, 2],
          columns = [(''age'', [Num 30, Num 41, Num 52]), (''bp'', [Num 120, Num 135, Num 110])]\<rparr>"
  by (simp add: prepare_and_subset_def scenario_defs names_def getitem_columns_def)

lemma make_predictions_example:
  "make_predictions example_model example_table = Inr [Num 60, Num 82, Num 104]"
  by (simp add: make_predictions_def prepare_example)
     (simp add: scenario_defs rows_def row_def nrows_def score_def upt_rec)

lemma prepare_without_id:
  "prepare_and_subset example_model table_without_id =
     Inr \<lparr>index = [0, 1, 2],
          columns = [(''age'', [Num 30, Num 41, Num 52]), (''bp'', [Num 120, Num 135, Num 110])]\<rparr>"
  by (simp add: prepare_and_subset_def scenario_defs names_def getitem_columns_def)

lemma make_factors_example:
  "make_factors example_top_k example_model example_table 2 =
     Inr \<lparr>index = [0, 1, 2],
          columns = [(''id'', [Num 101, Num 102, Num 103]),
                     (''Factor1TXT'', [Txt ''age'', Txt ''age'', Txt ''age'']),
                     (''Factor2TXT'', [Txt ''bp'', Txt ''bp'', Txt ''bp''])]\<rparr>"
  by code_simp

lemma top_k_example:
  "example_top_k \<lparr>index = [0, 1, 2],
          columns = [(''age'', [Num 30, Num 41, Num 52]), (''bp'', [Num 120, Num 135, Num 110])]\<rparr>
      (feature_model example_model) 2
   = Inr [[''age'', ''bp''], [''age'', ''bp''], [''age'', ''bp'']]"
  by code_simp

lemma wf_example_table: "wf_dataframe example_table"
  by code_simp

lemma reason_col_names_2: "reason_col_names 2 = [''Factor1TXT'', ''Factor2TXT'']"
  by code_simp

lemma example_call:
  "fst (make_predictions_with_k_factors_st example_top_k 0 2 example_world) = Inr 5"
  "heap (snd (make_predictions_with_k_factors_st example_top_k 0 2 example_world)) ! 5 =
     \<lparr>index = [0, 1, 2],
      columns = [(''id'', [Num 101, Num 102, Num 103]),
                 (''Factor1TXT'', [Txt ''age'', Txt ''age'', Txt ''age'']),
                 (''Factor2TXT'', [Txt ''bp'', Txt ''bp'', Txt ''bp'']),
                 (''pred'', [Num 60, Num 82, Num 104])]\<rparr>"
  by code_simp+

section \<open>The claims\<close>

subsection \<open>C1: \<open>create_all\<close>\<close>

text \<open>
  C1 says that \<open>create_all\<close> returns the raw table concatenated with the output of
  \<open>make_predictions_with_k_factors\<close>. The method asks \<open>self\<close> for
  \<open>create_predictions_factors\<close>, a name the class does not define, so every call
  raises \<open>AttributeError\<close> before anything is concatenated.
\<close>

theorem create_all_raises_AttributeError:
  "create_all top_k_features self original_df =
     Inl (AttributeError ''create_predictions_factors'')"
  by (simp add: create_all_def call_frame_method_def defined_attributes_def)

subsection \<open>C2: when \<open>prepare_and_subset\<close> raises \<open>HealthcareAIError\<close>\<close>

text \<open>
  C2 says that the error is raised exactly when the projection to \<open>column_names\<close> cannot
  find a name, and in no other case. The \<open>try\<close> block also holds the call of the
  pipeline: here the pipeline raises the \<open>KeyError\<close>, every required column is in the
  table, the projection is never reached, and the error is raised all the same.
\<close>

theorem prepare_and_subset_wraps_pipeline_KeyError:
  "set (column_names dob_model) \<subseteq> set (names example_table) \<and>
   transform (fit_pipeline dob_model) example_table = Inl (KeyError ''['dob'] not in index'') \<and>
   prepare_and_subset dob_model example_table =
     Inl (HealthcareAIError
            (error_message [''age'', ''bp''] [''id'', ''age'', ''bp'', ''notes'']
               ''['dob'] not in index''))"
  by (simp add: prepare_and_subset_def scenario_defs names_def getitem_columns_def repr_defs)

text \<open>
  C2 as amended: \<open>prepare_and_subset\<close> raises a \<open>HealthcareAIError\<close> that is not the
  pipeline's own exactly when a \<open>KeyError\<close> is raised inside the \<open>try\<close> block, by the
  pipeline's transform or by the projection, and the projection raises it exactly when a
  name of \<open>column_names\<close> is no column of the transformed table. Every other exception
  of the pipeline leaves the call as it is, and when nothing is raised the call returns the
  projection. The message is the template filled with the list of required columns, the
  list of the columns of the raw table and the text of the \<open>KeyError\<close>: it holds
  \<open>Required fields:\<close> followed by the first list, \<open>Given fields:\<close> followed by the
  second, and ends with \<open>Likely missing field(s):\<close> followed by the text of the
  \<open>KeyError\<close>. After a failed projection that text is the one pandas gives for the
  missing names, and every missing bare name stands in it.
\<close>

theorem prepare_and_subset_HealthcareAIError:
  "((\<exists>msg. prepare_and_subset self df = Inl (HealthcareAIError msg) \<and>
           transform (fit_pipeline self) df \<noteq> Inl (HealthcareAIError msg)) \<longleftrightarrow>
      (\<exists>ke. transform (fit_pipeline self) df = Inl (KeyError ke)) \<or>
      (\<exists>t. transform (fit_pipeline self) df = Inr t \<and> \<not> set (column_names self) \<subseteq> set (names t)))
   \<and> (\<forall>e. transform (fit_pipeline self) df = Inl e \<longrightarrow> (\<forall>ke. e \<noteq> KeyError ke) \<longrightarrow>
          prepare_and_subset self df = Inl e)
   \<and> (\<forall>t. transform (fit_pipeline self) df = Inr t \<longrightarrow>
          set (column_names self) \<subseteq> set (names t) \<longrightarrow>
            prepare_and_subset self df = getitem_columns t (column_names self) \<and>
            (\<exists>p. prepare_and_subset self df = Inr p))
   \<and> (\<forall>ke. transform (fit_pipeline self) df = Inl (KeyError ke) \<longrightarrow>
          prepare_and_subset self df =
            Inl (HealthcareAIError (error_message (column_names self) (names df) ke)))
   \<and> (\<forall>t. transform (fit_pipeline self) df = Inr t \<longrightarrow>
          \<not> set (column_names self) \<subseteq> set (names t) \<longrightarrow>
            prepare_and_subset self df =
              Inl (HealthcareAIError (error_message (column_names self) (names df)
                (np_str (filter (\<lambda>k. k \<notin> set (names t)) (column_names self))
                   @ '' not in index''))))
   \<and> (\<forall>required given ke.
          sublist (''Required fields: '' @ py_str_list required)
            (error_message required given ke) \<and>
          sublist (''Given fields: '' @ py_str_list given)
            (error_message required given ke) \<and>
          suffix (''Likely missing field(s): '' @ str_KeyError ke @ message_tail)
            (error_message required given ke))
   \<and> (\<forall>t c. c \<in> set (column_names self) \<longrightarrow> c \<notin> set (names t) \<longrightarrow> bare_name c \<longrightarrow>
          sublist c (str_KeyError
            (np_str (filter (\<lambda>k. k \<notin> set (names t)) (column_names self))
               @ '' not in index'')))"
proof (intro conjI allI impI)
  show "(\<exists>msg. prepare_and_subset self df = Inl (HealthcareAIError msg) \<and>
           transform (fit_pipeline self) df \<noteq> Inl (HealthcareAIError msg)) \<longleftrightarrow>
      (\<exists>ke. transform (fit_pipeline self) df = Inl (KeyError ke)) \<or>
      (\<exists>t. transform (fit_pipeline self) df = Inr t \<and> \<not> set (column_names self) \<subseteq> set (names t))"
  proof (cases "transform (fit_pipeline self) df")
    case (Inl e)
    show ?thesis
    proof (cases "\<exists>ke. e = KeyError ke")
      case True
      then show ?thesis using Inl prepare_and_subset_pipeline_KeyError by fastforce
    next
      case False
      then have "prepare_and_subset self df = Inl e"
        using Inl prepare_and_subset_pipeline_error by blast
      then show ?thesis using Inl False by auto
    qed
  next
    case (Inr t)
    show ?thesis
    proof (cases "set (column_names self) \<subseteq> set (names t)")
      case True
      then show ?thesis using Inr prepare_and_subset_ok [OF Inr True] by simp
    next
      case False
      then show ?thesis using Inr prepare_and_subset_missing [OF Inr False] by simp
    qed
  qed
next
  fix e
  assume "transform (fit_pipeline self) df = Inl e" "\<forall>ke. e \<noteq> KeyError ke"
  then show "prepare_and_subset self df = Inl e"
    by (rule prepare_and_subset_pipeline_error)
next
  fix t
  assume t: "transform (fit_pipeline self) df = Inr t"
    and s: "set (column_names self) \<subseteq> set (names t)"
  show "prepare_and_subset self df = getitem_columns t (column_names self)"
    using prepare_and_subset_ok [OF t s] getitem_columns_ok [OF s] by simp
  show "\<exists>p. prepare_and_subset self df = Inr p"
    using prepare_and_subset_ok [OF t s] by simp
next
  fix ke
  assume "transform (fit_pipeline self) df = Inl (KeyError ke)"
  then show "prepare_and_subset self df =
      Inl (HealthcareAIError (error_message (column_names self) (names df) ke))"
    by (rule prepare_and_subset_pipeline_KeyError)
next
  fix t
  assume "transform (fit_pipeline self) df = Inr t"
    "\<not> set (column_names self) \<subseteq> set (names t)"
  then show "prepare_and_subset self df =
      Inl (HealthcareAIError (error_message (column_names self) (names df)
        (np_str (filter (\<lambda>k. k \<notin> set (names t)) (column_names self)) @ '' not in index'')))"
    by (rule prepare_and_subset_missing)
next
  fix required given ke
  show "sublist (''Required fields: '' @ py_str_list required) (error_message required given ke)"
    by (rule message_required)
  show "sublist (''Given fields: '' @ py_str_list given) (error_message required given ke)"
    by (rule message_given_fields)
  show "suffix (''Likely missing field(s): '' @ str_KeyError ke @ message_tail)
      (error_message required given ke)"
    by (rule message_key_error)
next
  fix t c
  assume "c \<in> set (column_names self)" "c \<notin> set (names t)" and b: "bare_name c"
  then have "c \<in> set (filter (\<lambda>k. k \<notin> set (names t)) (column_names self))" by simp
  then show "sublist c (str_KeyError
      (np_str (filter (\<lambda>k. k \<notin> set (names t)) (column_names self)) @ '' not in index''))"
    using b by (rule sublist_name_KeyError)
qed

text \<open>
  The amended C2 on the table without \<open>bp\<close>: the pipeline succeeds, \<open>bp\<close> is required
  and missing, the error carries the filled template, and the name \<open>bp\<close> stands in the
  text after \<open>Likely missing field(s):\<close>.
\<close>

theorem prepare_and_subset_HealthcareAIError_witness:
  "transform (fit_pipeline example_model) table_without_bp = Inr table_without_bp \<and>
   \<not> set (column_names example_model) \<subseteq> set (names table_without_bp) \<and>
   ''bp'' \<in> set (column_names example_model) \<and> ''bp'' \<notin> set (names table_without_bp) \<and>
   bare_name ''bp'' \<and>
   prepare_and_subset example_model table_without_bp =
     Inl (HealthcareAIError (error_message [''age'', ''bp''] [''id'', ''age'']
            ''['bp'] not in index'')) \<and>
   sublist ''bp'' (str_KeyError ''['bp'] not in index'')"
proof -
  have t: "transform (fit_pipeline example_model) table_without_bp = Inr table_without_bp"
    by (simp add: scenario_defs)
  have c: "''bp'' \<in> set (column_names example_model)" "''bp'' \<notin> set (names table_without_bp)"
    by (simp_all add: scenario_defs names_def)
  then have n: "\<not> set (column_names example_model) \<subseteq> set (names table_without_bp)" by auto
  have k: "np_str (filter (\<lambda>k. k \<notin> set (names table_without_bp)) (column_names example_model))
             @ '' not in index'' = ''['bp'] not in index''"
    by (simp add: scenario_defs names_def repr_defs)
  have "sublist ''bp'' (str_KeyError
          (np_str (filter (\<lambda>k. k \<notin> set (names table_without_bp)) (column_names example_model))
             @ '' not in index''))"
    using prepare_and_subset_HealthcareAIError [of example_model table_without_bp]
      c bare_name_bp by blast
  then show ?thesis
    using t c n bare_name_bp prepare_without_bp k by simp
qed

subsection \<open>C3: the shape of the table of \<open>make_factors\<close>\<close>

text \<open>
  C3: for \<open>k \<ge> 1\<close>, on a well-formed raw table that has the identifier column and on
  which the preparation succeeds, with an attribution that returns one list of \<open>k\<close>
  names per row, \<open>make_factors\<close> returns a table of \<open>1 + k\<close> columns: the identifier
  column first, then \<open>Factor1TXT\<close> to \<open>FactorkTXT\<close> in this order; it has the index
  of the raw table, so as many rows, and every column has one cell per row.
\<close>

theorem make_factors_shape:
  assumes k: "1 \<le> k" and wf: "wf_dataframe df" and grain: "grain_column self \<in> set (names df)"
    and p: "prepare_and_subset self df = Inr p"
    and tf: "top_k_features p (feature_model self) k = Inr tf"
    and nr: "length tf = nrows df" and width: "\<forall>r\<in>set tf. length r = nat k"
  shows "\<exists>res. make_factors top_k_features self df k = Inr res \<and>
     names res = grain_column self # map (\<lambda>i. ''Factor'' @ py_str_int i @ ''TXT'') [1..k] \<and>
     length (columns res) = 1 + nat k \<and> nrows res = nrows df \<and> index res = index df \<and>
     list_all (\<lambda>c. length (snd c) = nrows df) (columns res)"
proof -
  let ?g = "\<lparr>index = index df,
             columns = filter (\<lambda>c. fst c = grain_column self) (columns df)\<rparr>"
  have g: "getitem_columns df [grain_column self] = Inr ?g"
    using grain by (simp add: getitem_columns_ok)
  have gn: "map fst (columns ?g) = [grain_column self]"
    using wf grain by (simp add: wf_dataframe_def names_def filter_name_distinct)
  have gl: "list_all (\<lambda>c. length (snd c) = nrows df) (columns ?g)"
    using wf by (auto simp: wf_dataframe_def list_all_iff)
  have "\<forall>r\<in>set tf. length r = length (reason_col_names k)"
    using width by (simp add: length_reason_col_names)
  then obtain rdf where rdf: "DataFrame tf (reason_col_names k) (index df) = Inr rdf"
    using DataFrame_ok [of tf "index df" "reason_col_names k"] nr by (auto simp: nrows_def)
  have rn: "map fst (columns rdf) = reason_col_names k"
    using DataFrame_Inr(2) [OF rdf] by (simp add: names_def)
  have rl: "list_all (\<lambda>c. length (snd c) = nrows df) (columns rdf)"
    using DataFrame_Inr(7) [OF rdf] by (simp add: nrows_def)
  let ?res = "\<lparr>index = index df, columns = columns ?g @ columns rdf\<rparr>"
  have m: "make_factors top_k_features self df k = Inr ?res"
    using make_factors_ok [where top_k_features = top_k_features, OF p g tf rdf] .
  have n: "names ?res = grain_column self # map (\<lambda>i. ''Factor'' @ py_str_int i @ ''TXT'') [1..k]"
    using gn rn by (simp add: names_def reason_col_names_def)
  have "length (names ?res) = 1 + nat k"
    unfolding n using k by simp
  then have l: "length (columns ?res) = 1 + nat k" by (simp add: names_def)
  have a: "list_all (\<lambda>c. length (snd c) = nrows df) (columns ?res)"
    using gl rl by simp
  show ?thesis
    using m n l a by (intro exI [of _ ?res]) (simp add: nrows_def)
qed

text \<open>C3 on the scenario with \<open>k = 2\<close>.\<close>

theorem make_factors_shape_witness:
  "(1::int) \<le> 2 \<and> wf_dataframe example_table \<and>
   grain_column example_model \<in> set (names example_table) \<and>
   make_factors example_top_k example_model example_table 2 =
     Inr \<lparr>index = [0, 1, 2],
          columns = [(''id'', [Num 101, Num 102, Num 103]),
                     (''Factor1TXT'', [Txt ''age'', Txt ''age'', Txt ''age'']),
                     (''Factor2TXT'', [Txt ''bp'', Txt ''bp'', Txt ''bp''])]\<rparr> \<and>
   names \<lparr>index = [0, 1, 2],
          columns = [(''id'', [Num 101, Num 102, Num 103]),
                     (''Factor1TXT'', [Txt ''age'', Txt ''age'', Txt ''age'']),
                     (''Factor2TXT'', [Txt ''bp'', Txt ''bp'', Txt ''bp''])]\<rparr> =
     grain_column example_model # map (\<lambda>i. ''Factor'' @ py_str_int i @ ''TXT'') [1..2]"
proof -
  have g: "grain_column example_model \<in> set (names example_table)"
    by (simp add: scenario_defs names_def)
  have n: "length [[''age'', ''bp''], [''age'', ''bp''], [''age'', ''bp'']] = nrows example_table"
    by (simp add: nrows_def scenario_defs)
  have w: "\<forall>r\<in>set [[''age'', ''bp''], [''age'', ''bp''], [''age'', ''bp'']]. length r = nat 2"
    by simp
  have k: "(1::int) \<le> 2" by simp
  from make_factors_shape [where top_k_features = example_top_k,
      OF k wf_example_table g prepare_example top_k_example n w]
  show ?thesis using g wf_example_table make_factors_example by auto
qed

subsection \<open>C4: \<open>make_predictions_with_k_factors\<close> adds the prediction column\<close>

text \<open>
  C4 says that the output is always the output of \<open>make_factors\<close> with one more, last
  column. The assignment \<open>results[self.prediction_column] = predictions_list\<close> overwrites
  a column of that name when there is one: for a model whose prediction column is named as
  its identifier column, the output has the columns of \<open>make_factors\<close> and no more, and
  the identifiers are replaced by the predictions.
\<close>

theorem make_predictions_with_k_factors_overwrites:
  "make_factors example_top_k clash_model example_table 2 =
     Inr \<lparr>index = [0, 1, 2],
          columns = [(''id'', [Num 101, Num 102, Num 103]),
                     (''Factor1TXT'', [Txt ''age'', Txt ''age'', Txt ''age'']),
                     (''Factor2TXT'', [Txt ''bp'', Txt ''bp'', Txt ''bp''])]\<rparr> \<and>
   make_predictions clash_model example_table = Inr [Num 60, Num 82, Num 104] \<and>
   make_predictions_with_k_factors example_top_k clash_model example_table 2 =
     Inr \<lparr>index = [0, 1, 2],
          columns = [(''id'', [Num 60, Num 82, Num 104]),
                     (''Factor1TXT'', [Txt ''age'', Txt ''age'', Txt ''age'']),
                     (''Factor2TXT'', [Txt ''bp'', Txt ''bp'', Txt ''bp''])]\<rparr>"
  by code_simp

text \<open>
  C4 as amended: when \<open>make_factors\<close> and \<open>make_predictions\<close> both succeed, the
  predictor returned one value per row, and the prediction column is named neither as the
  identifier column nor as one of \<open>Factor1TXT\<close> to \<open>FactorkTXT\<close>, the output is the
  table of \<open>make_factors\<close> with exactly one more column, the last, named
  \<open>prediction_column\<close> and holding the list of \<open>make_predictions\<close>.
\<close>

theorem make_predictions_with_k_factors_appends:
  assumes m: "make_factors top_k_features self df k = Inr res"
    and ys: "make_predictions self df = Inr ys"
    and len: "length ys = nrows df"
    and fresh: "prediction_column self \<noteq> grain_column self"
               "prediction_column self \<notin> set (reason_col_names k)"
  shows "make_predictions_with_k_factors top_k_features self df k =
           Inr (res\<lparr>columns := columns res @ [(prediction_column self, ys)]\<rparr>)"
proof -
  from m obtain p g tf rdf where
    g: "getitem_columns df [grain_column self] = Inr g"
    and rdf: "DataFrame tf (reason_col_names k) (index df) = Inr rdf"
    and res: "res = \<lparr>index = index df, columns = columns g @ columns rdf\<rparr>"
    by (rule make_factors_Inr)
  have "columns g = filter (\<lambda>c. fst c = grain_column self) (columns df)"
    using getitem_columns_Inr(2) [OF g] by simp
  then have "set (map fst (columns g)) \<subseteq> {grain_column self}" by auto
  moreover have "map fst (columns rdf) = reason_col_names k"
    using DataFrame_Inr(2) [OF rdf] by (simp add: names_def)
  ultimately have "prediction_column self \<notin> set (names res)"
    using fresh by (auto simp: res names_def)
  moreover have "nrows res = nrows df" by (simp add: res nrows_def)
  ultimately have "setitem res (prediction_column self) ys =
      Inr (res\<lparr>columns := columns res @ [(prediction_column self, ys)]\<rparr>)"
    using len by (simp add: setitem_def)
  then show ?thesis
    using m ys by (simp add: make_predictions_with_k_factors_def)
qed

text \<open>The amended C4 on the scenario with \<open>k = 2\<close>.\<close>

theorem make_predictions_with_k_factors_appends_witness:
  "length [Num 60, Num 82, Num 104] = nrows example_table \<and>
   prediction_column example_model \<noteq> grain_column example_model \<and>
   prediction_column example_model \<notin> set (reason_col_names 2) \<and>
   make_predictions_with_k_factors example_top_k example_model example_table 2 =
     Inr \<lparr>index = [0, 1, 2],
          columns = [(''id'', [Num 101, Num 102, Num 103]),
                     (''Factor1TXT'', [Txt ''age'', Txt ''age'', Txt ''age'']),
                     (''Factor2TXT'', [Txt ''bp'', Txt ''bp'', Txt ''bp'']),
                     (''pred'', [Num 60, Num 82, Num 104])]\<rparr>"
proof -
  have l: "length [Num 60, Num 82, Num 104] = nrows example_table"
    by (simp add: nrows_def scenario_defs)
  have f: "prediction_column example_model \<noteq> grain_column example_model"
    "prediction_column example_model \<notin> set (reason_col_names 2)"
    by (simp_all add: reason_col_names_2 scenario_defs)
  show ?thesis
    using make_predictions_with_k_factors_appends [where top_k_features = example_top_k,
        OF make_factors_example make_predictions_example l f] l f
    by (simp add: example_model_def)
qed

subsection \<open>C5: the columns of the prepared table\<close>

text \<open>
  C5: whenever \<open>prepare_and_subset\<close> succeeds, the table it returns has exactly the
  columns \<open>column_names\<close>, in that order, with the cells the pipeline gave them; a column
  that is not in \<open>column_names\<close> is not in the result, and whether the call succeeds
  depends only on the names of \<open>column_names\<close> being columns of the transformed table,
  so no other column can make it fail. The transformed table has uniquely named columns.
\<close>

theorem prepare_and_subset_projects:
  assumes "transform (fit_pipeline self) df = Inr t" and "distinct (names t)"
  shows "((\<exists>p. prepare_and_subset self df = Inr p) \<longleftrightarrow> set (column_names self) \<subseteq> set (names t))
    \<and> (\<forall>p. prepare_and_subset self df = Inr p \<longrightarrow>
          names p = column_names self \<and> index p = index t \<and>
          (\<forall>c. c \<notin> set (column_names self) \<longrightarrow> c \<notin> set (names p)) \<and>
          (\<forall>c\<in>set (column_names self). map_of (columns p) c = map_of (columns t) c))"
proof (cases "set (column_names self) \<subseteq> set (names t)")
  case True
  let ?p = "\<lparr>index = index t,
             columns = concat (map (\<lambda>k. filter (\<lambda>c. fst c = k) (columns t)) (column_names self))\<rparr>"
  have p: "prepare_and_subset self df = Inr ?p"
    using prepare_and_subset_ok [OF assms(1) True] .
  have n: "names ?p = column_names self"
    using assms(2) True by (simp add: names_def names_project_distinct)
  have m: "\<forall>c\<in>set (column_names self). map_of (columns ?p) c = map_of (columns t) c"
    by (simp add: map_of_project)
  show ?thesis using True p n m by auto
next
  case False
  then show ?thesis using prepare_and_subset_missing [OF assms(1) False] by simp
qed

text \<open>
  C5 on the scenario: the table has the extra column \<open>notes\<close>, the call succeeds and
  returns the columns \<open>age\<close> and \<open>bp\<close>.
\<close>

theorem prepare_and_subset_projects_witness:
  "transform (fit_pipeline example_model) example_table = Inr example_table \<and>
   distinct (names example_table) \<and>
   ''notes'' \<in> set (names example_table) \<and>
   prepare_and_subset example_model example_table =
     Inr \<lparr>index = [0, 1, 2],
          columns = [(''age'', [Num 30, Num 41, Num 52]), (''bp'', [Num 120, Num 135, Num 110])]\<rparr> \<and>
   names \<lparr>index = [0, 1, 2],
          columns = [(''age'', [Num 30, Num 41, Num 52]), (''bp'', [Num 120, Num 135, Num 110])]\<rparr>
     = column_names example_model"
proof -
  have t: "transform (fit_pipeline example_model) example_table = Inr example_table"
    by (simp add: scenario_defs)
  have d: "distinct (names example_table)" "''notes'' \<in> set (names example_table)"
    by (simp_all add: scenario_defs names_def)
  show ?thesis
    using prepare_and_subset_projects [OF t d(1)] t d prepare_example by blast
qed

subsection \<open>C6: one prediction per row\<close>

text \<open>
  C6: when the pipeline returns a table on the index of the raw table that has all of
  \<open>column_names\<close>, and the predictor returns one value per row of the table it is given,
  \<open>make_predictions\<close> returns a list as long as the raw table has rows. When the
  predictor scores each row on its own, the \<open>i\<close>-th value is the score of the \<open>i\<close>-th
  row of the prepared table, which is the \<open>i\<close>-th row of the transformed table
  restricted to \<open>column_names\<close>.
\<close>

theorem make_predictions_one_per_row:
  assumes t: "transform (fit_pipeline self) df = Inr t"
    and idx: "index t = index df"
    and cols: "set (column_names self) \<subseteq> set (names t)"
    and contract: "\<forall>p. \<exists>ys. predict (model self) p = Inr ys \<and> length ys = nrows p"
  shows "\<exists>p ys. prepare_and_subset self df = Inr p \<and> make_predictions self df = Inr ys \<and>
           length ys = nrows df \<and>
           (\<forall>f. (\<forall>q. predict (model self) q = Inr (map f (rows q))) \<longrightarrow>
              (\<forall>i<nrows df. ys ! i = f (row p i) \<and>
                 row p i = concat (map (\<lambda>k. filter (\<lambda>c. fst c = k) (row t i)) (column_names self))))"
proof -
  let ?p = "\<lparr>index = index t,
             columns = concat (map (\<lambda>k. filter (\<lambda>c. fst c = k) (columns t)) (column_names self))\<rparr>"
  have p: "prepare_and_subset self df = Inr ?p"
    using prepare_and_subset_ok [OF t cols] .
  obtain ys where ys: "predict (model self) ?p = Inr ys" and l: "length ys = nrows ?p"
    using contract by blast
  have m: "make_predictions self df = Inr ys"
    using p ys by (simp add: make_predictions_def)
  have n: "nrows ?p = nrows df" using idx by (simp add: nrows_def)
  have r: "\<And>i. row ?p i =
      concat (map (\<lambda>k. filter (\<lambda>c. fst c = k) (row t i)) (column_names self))"
    by (rule row_project) simp
  have "\<forall>f. (\<forall>q. predict (model self) q = Inr (map f (rows q))) \<longrightarrow>
          (\<forall>i<nrows df. ys ! i = f (row ?p i) \<and>
             row ?p i = concat (map (\<lambda>k. filter (\<lambda>c. fst c = k) (row t i)) (column_names self)))"
  proof (intro allI impI)
    fix f i assume f: "\<forall>q. predict (model self) q = Inr (map f (rows q))" and i: "i < nrows df"
    have "ys = map f (rows ?p)" using f ys by simp
    then have "ys ! i = f (row ?p i)"
      using i n by (simp add: rows_def)
    then show "ys ! i = f (row ?p i) \<and>
      row ?p i = concat (map (\<lambda>k. filter (\<lambda>c. fst c = k) (row t i)) (column_names self))"
      using r by simp
  qed
  moreover have "length ys = nrows df" using l n by simp
  ultimately show ?thesis using p m by blast
qed

text \<open>C6 on the scenario.\<close>

theorem make_predictions_one_per_row_witness:
  "transform (fit_pipeline example_model) example_table = Inr example_table \<and>
   set (column_names example_model) \<subseteq> set (names example_table) \<and>
   (\<forall>p. \<exists>ys. predict (model example_model) p = Inr ys \<and> length ys = nrows p) \<and>
   make_predictions example_model example_table = Inr [Num 60, Num 82, Num 104] \<and>
   length [Num 60, Num 82, Num 104] = nrows example_table"
proof -
  have t: "transform (fit_pipeline example_model) example_table = Inr example_table"
    by (simp add: scenario_defs)
  have c: "set (column_names example_model) \<subseteq> set (names example_table)"
    by (simp add: scenario_defs names_def)
  have k: "\<forall>p. \<exists>ys. predict (model example_model) p = Inr ys \<and> length ys = nrows p"
    by (simp add: scenario_defs rows_def)
  have l: "length [Num 60, Num 82, Num 104] = nrows example_table"
    by (simp add: nrows_def scenario_defs)
  from make_predictions_one_per_row [OF t refl c k]
  show ?thesis using t c k l make_predictions_example by simp
qed

subsection \<open>C7: no dispatch on \<open>model_type\<close>\<close>

text \<open>
  C7: \<open>make_predictions\<close> is the predictor's \<open>predict\<close> on the prepared table, or the
  error of the preparation; its result is the same for every value of \<open>model_type\<close> and
  for every \<open>predict_proba\<close> the predictor may have, which it never calls.
\<close>

theorem make_predictions_ignores_model_type:
  "make_predictions (self\<lparr>model_type := mt, model := (model self)\<lparr>predict_proba := pp\<rparr>\<rparr>) df
     = make_predictions self df
   \<and> (\<forall>p. prepare_and_subset self df = Inr p \<longrightarrow>
          make_predictions self df = predict (model self) p)
   \<and> (\<forall>e. prepare_and_subset self df = Inl e \<longrightarrow> make_predictions self df = Inl e)"
proof -
  have "prepare_and_subset (self\<lparr>model_type := mt, model := (model self)\<lparr>predict_proba := pp\<rparr>\<rparr>) df
          = prepare_and_subset self df"
    by (simp add: prepare_and_subset_def split: sum.splits error.splits)
  then show ?thesis by (simp add: make_predictions_def)
qed

text \<open>C7 on the scenario, with the model tagged as a regression.\<close>

theorem make_predictions_ignores_model_type_witness:
  "prepare_and_subset example_model example_table =
     Inr \<lparr>index = [0, 1, 2],
          columns = [(''age'', [Num 30, Num 41, Num 52]), (''bp'', [Num 120, Num 135, Num 110])]\<rparr> \<and>
   make_predictions example_model example_table =
     predict (model example_model)
       \<lparr>index = [0, 1, 2],
        columns = [(''age'', [Num 30, Num 41, Num 52]), (''bp'', [Num 120, Num 135, Num 110])]\<rparr> \<and>
   make_predictions example_model example_table = Inr [Num 60, Num 82, Num 104]"
  using make_predictions_ignores_model_type
      [where self = example_model and df = example_table and mt = "''regression''"
         and pp = "\<lambda>_. Inr []"]
    prepare_example make_predictions_example by simp

subsection \<open>C8: no call changes the object or the table it is given\<close>

text \<open>
  C8, over the store: for a raw table at any reference of the store, each of \<open>save\<close>,
  \<open>prepare_and_subset\<close>, \<open>make_predictions\<close>, \<open>make_factors\<close>,
  \<open>make_predictions_with_k_factors\<close> and \<open>create_all\<close> ends in a world where
  \<open>self\<close> is the object it was and every frame that existed before the call, the raw
  table among them, is the frame it was; \<open>save\<close> allocates nothing. What the call returns
  is the value of the function of the first part on \<open>self\<close> and the raw table alone, so
  nothing is remembered from one call to the next. The one assignment into a frame,
  \<open>results[self.prediction_column] = predictions_list\<close>, writes to the frame that
  \<open>make_factors\<close> allocated during the call.
\<close>

theorem calls_leave_self_and_frames_unchanged:
  assumes "dataframe < length (heap w)"
  shows "unchanged w (snd (save save_object_as_pickle filename w)) \<and>
         heap (snd (save save_object_as_pickle filename w)) = heap w \<and>
         returns w (prepare_and_subset_st dataframe w)
           (prepare_and_subset (self_obj w) (heap w ! dataframe)) \<and>
         unchanged w (snd (make_predictions_st dataframe w)) \<and>
         fst (make_predictions_st dataframe w) =
           make_predictions (self_obj w) (heap w ! dataframe) \<and>
         returns w (make_factors_st top_k_features dataframe k w)
           (make_factors top_k_features (self_obj w) (heap w ! dataframe) k) \<and>
         returns w (make_predictions_with_k_factors_st top_k_features dataframe k w)
           (make_predictions_with_k_factors top_k_features (self_obj w) (heap w ! dataframe) k) \<and>
         returns w (create_all_st top_k_features dataframe w)
           (create_all top_k_features (self_obj w) (heap w ! dataframe))"
  using assms save_unchanged prepare_and_subset_st_returns make_predictions_st_result
    make_factors_st_returns make_predictions_with_k_factors_st_returns create_all_st_returns
  by blast

text \<open>
  C8 on the scenario: after \<open>make_predictions_with_k_factors\<close> the model and the table
  at reference 0 are what they were and the result is a new frame; after \<open>save\<close> the
  model is what it was and the file holds it.
\<close>

theorem calls_leave_self_and_frames_unchanged_witness:
  "(0::nat) < length (heap example_world) \<and>
   self_obj (snd (make_predictions_with_k_factors_st example_top_k 0 2 example_world)) = example_model \<and>
   heap (snd (make_predictions_with_k_factors_st example_top_k 0 2 example_world)) ! 0 = example_table \<and>
   fst (make_predictions_with_k_factors_st example_top_k 0 2 example_world) = Inr 5 \<and>
   heap (snd (make_predictions_with_k_factors_st example_top_k 0 2 example_world)) ! 5 =
     \<lparr>index = [0, 1, 2],
      columns = [(''id'', [Num 101, Num 102, Num 103]),
                 (''Factor1TXT'', [Txt ''age'', Txt ''age'', Txt ''age'']),
                 (''Factor2TXT'', [Txt ''bp'', Txt ''bp'', Txt ''bp'']),
                 (''pred'', [Num 60, Num 82, Num 104])]\<rparr> \<and>
   files (snd (save write_file ''model.pkl'' example_world)) = [(''model.pkl'', example_model)] \<and>
   self_obj (snd (save write_file ''model.pkl'' example_world)) = example_model"
proof -
  have h: "(0::nat) < length (heap example_world)" by (simp add: example_world_def)
  have s: "files (snd (save write_file ''model.pkl'' example_world)) = [(''model.pkl'', example_model)]"
    by (simp add: save_def write_file_def example_world_def)
  have e: "self_obj example_world = example_model" "heap example_world ! 0 = example_table"
    by (simp_all add: example_world_def)
  have "returns example_world
          (make_predictions_with_k_factors_st example_top_k 0 2 example_world)
          (make_predictions_with_k_factors example_top_k (self_obj example_world)
             (heap example_world ! 0) 2)"
    and v: "unchanged example_world (snd (save write_file ''model.pkl'' example_world))"
    using calls_leave_self_and_frames_unchanged
      [where top_k_features = example_top_k and k = 2 and save_object_as_pickle = write_file
         and filename = "''model.pkl''", OF h]
    by simp_all
  then have u: "unchanged example_world
      (snd (make_predictions_with_k_factors_st example_top_k 0 2 example_world))"
    by (simp add: returns_def)
  show ?thesis
    using h s e example_call unchanged_self [OF u] unchanged_nth [OF u h] unchanged_self [OF v]
    by simp
qed

subsection \<open>C9: a raw table without the identifier column\<close>

text \<open>
  C9 says that \<open>make_factors\<close> then fails with a plain \<open>KeyError\<close> and not with the
  enriched error. The preparation runs before the identifier column is selected: on a
  table that has neither \<open>id\<close> nor the required \<open>bp\<close>, the call fails with the
  \<open>HealthcareAIError\<close> of \<open>prepare_and_subset\<close>.
\<close>

theorem make_factors_prepare_error_first:
  "grain_column example_model \<notin> set (names table_age_only) \<and>
   make_factors example_top_k example_model table_age_only 3 =
     Inl (HealthcareAIError (error_message [''age'', ''bp''] [''age''] ''['bp'] not in index''))"
  by (simp add: make_factors_def prepare_and_subset_def scenario_defs names_def
      getitem_columns_def repr_defs)

text \<open>
  C9 as amended: when the identifier column is absent and the preparation succeeds,
  \<open>make_factors\<close> and \<open>make_predictions_with_k_factors\<close> fail with the \<open>KeyError\<close> of
  the column selection; when the preparation fails, they fail with its error.
\<close>

theorem make_factors_missing_grain:
  assumes "grain_column self \<notin> set (names df)"
  shows "(\<forall>p. prepare_and_subset self df = Inr p \<longrightarrow>
            make_factors top_k_features self df k =
              Inl (KeyError (np_str [grain_column self] @ '' not in index'')) \<and>
            make_predictions_with_k_factors top_k_features self df k =
              Inl (KeyError (np_str [grain_column self] @ '' not in index'')))
       \<and> (\<forall>e. prepare_and_subset self df = Inl e \<longrightarrow>
            make_factors top_k_features self df k = Inl e \<and>
            make_predictions_with_k_factors top_k_features self df k = Inl e)"
proof -
  have g: "getitem_columns df [grain_column self] =
             Inl (KeyError (np_str [grain_column self] @ '' not in index''))"
    using assms by (simp add: getitem_columns_def)
  show ?thesis
    by (simp add: make_factors_def make_predictions_with_k_factors_def g)
qed

text \<open>The amended C9 on the table that has \<open>age\<close> and \<open>bp\<close> and no \<open>id\<close>.\<close>

theorem make_factors_missing_grain_witness:
  "grain_column example_model \<notin> set (names table_without_id) \<and>
   prepare_and_subset example_model table_without_id =
     Inr \<lparr>index = [0, 1, 2],
          columns = [(''age'', [Num 30, Num 41, Num 52]), (''bp'', [Num 120, Num 135, Num 110])]\<rparr> \<and>
   make_factors example_top_k example_model table_without_id 2 =
     Inl (KeyError ''['id'] not in index'')"
proof -
  have g: "grain_column example_model \<notin> set (names table_without_id)"
    by (simp add: scenario_defs names_def)
  have n: "np_str [grain_column example_model] @ '' not in index'' = ''['id'] not in index''"
    by (simp add: scenario_defs repr_defs)
  show ?thesis
    using make_factors_missing_grain [OF g, of example_top_k 2] g prepare_without_id n
    by simp
qed

subsection \<open>C10: the attribution is paired with the rows by position\<close>

text \<open>
  C10: whenever \<open>make_factors\<close> returns a table, its index is the index of the raw
  table; its first columns are the identifier columns of the raw table as they are; and for
  every row \<open>i\<close> and rank \<open>j\<close> of the attribution, the cell of row \<open>i\<close> in the column
  \<open>Factor(j+1)TXT\<close> is the \<open>j\<close>-th name of the \<open>i\<close>-th list the attribution returned.
  For \<open>k > 0\<close>, a non-empty attribution has as many lists as the raw table has rows.
\<close>

theorem make_factors_positional:
  assumes m: "make_factors top_k_features self df k = Inr res"
    and p: "prepare_and_subset self df = Inr p"
    and tf: "top_k_features p (feature_model self) k = Inr tf"
  shows "index res = index df \<and> (tf \<noteq> [] \<and> 0 < k \<longrightarrow> length tf = nrows df) \<and>
    (\<exists>g. getitem_columns df [grain_column self] = Inr g \<and> index g = index df \<and>
         take (length (columns g)) (columns res) = columns g \<and>
         (\<forall>i<length tf. \<forall>j<length (tf ! i).
            row res i ! (length (columns g) + j) =
              (''Factor'' @ py_str_int (int j + 1) @ ''TXT'', Txt (tf ! i ! j))))"
proof -
  from m obtain p' g tf' rdf where
    p': "prepare_and_subset self df = Inr p'"
    and g: "getitem_columns df [grain_column self] = Inr g"
    and tf': "top_k_features p' (feature_model self) k = Inr tf'"
    and rdf': "DataFrame tf' (reason_col_names k) (index df) = Inr rdf"
    and res: "res = \<lparr>index = index df, columns = columns g @ columns rdf\<rparr>"
    by (rule make_factors_Inr)
  have "p' = p" using p p' by simp
  then have "tf' = tf" using tf tf' by simp
  then have rdf: "DataFrame tf (reason_col_names k) (index df) = Inr rdf" using rdf' by simp
  have ig: "index g = index df" using g by (rule getitem_columns_Inr)
  have len: "tf \<noteq> [] \<and> 0 < k \<longrightarrow> length tf = nrows df"
  proof
    assume h: "tf \<noteq> [] \<and> 0 < k"
    then have "reason_col_names k \<noteq> []"
      using length_reason_col_names [of k] by auto
    then show "length tf = nrows df"
      using DataFrame_Inr(4) [OF rdf] h by (simp add: nrows_def)
  qed
  have cells: "\<forall>i<length tf. \<forall>j<length (tf ! i).
      row res i ! (length (columns g) + j) =
        (''Factor'' @ py_str_int (int j + 1) @ ''TXT'', Txt (tf ! i ! j))"
  proof (intro allI impI)
    fix i j assume i: "i < length tf" and j: "j < length (tf ! i)"
    then have ne: "tf \<noteq> []" by auto
    have "length (tf ! i) \<le> foldr max (map length tf) 0"
      using i by (intro foldr_max_upper) simp
    then have jk: "j < length (reason_col_names k)"
      using j DataFrame_Inr(6) [OF rdf ne] by simp
    then have jn: "j < nat k" by (simp add: length_reason_col_names)
    have c: "columns rdf ! j =
        (reason_col_names k ! j, map (\<lambda>r. if j < length r then Txt (r ! j) else NaN) tf)"
      using DataFrame_Inr(5) [OF rdf ne jk] .
    have jl: "j < length (columns rdf)"
      using jk DataFrame_Inr(3) [OF rdf] by simp
    have "row res i ! (length (columns g) + j) =
        (\<lambda>(c, vs). (c, if i < length vs then vs ! i else NaN)) (columns rdf ! j)"
      using jl by (simp add: row_def res nth_append)
    also have "\<dots> = (reason_col_names k ! j, Txt (tf ! i ! j))"
      using c i j by simp
    finally show "row res i ! (length (columns g) + j) =
        (''Factor'' @ py_str_int (int j + 1) @ ''TXT'', Txt (tf ! i ! j))"
      using reason_col_names_nth [OF jn] by simp
  qed
  show ?thesis
    using g ig len cells by (auto simp: res)
qed

text \<open>C10 on the scenario with \<open>k = 2\<close>.\<close>

theorem make_factors_positional_witness:
  "make_factors example_top_k example_model example_table 2 =
     Inr \<lparr>index = [0, 1, 2],
          columns = [(''id'', [Num 101, Num 102, Num 103]),
                     (''Factor1TXT'', [Txt ''age'', Txt ''age'', Txt ''age'']),
                     (''Factor2TXT'', [Txt ''bp'', Txt ''bp'', Txt ''bp''])]\<rparr> \<and>
   index \<lparr>index = [0, 1, 2],
          columns = [(''id'', [Num 101, Num 102, Num 103]),
                     (''Factor1TXT'', [Txt ''age'', Txt ''age'', Txt ''age'']),
                     (''Factor2TXT'', [Txt ''bp'', Txt ''bp'', Txt ''bp''])]\<rparr> = index example_table \<and>
   row \<lparr>index = [0, 1, 2],
        columns = [(''id'', [Num 101, Num 102, Num 103]),
                   (''Factor1TXT'', [Txt ''age'', Txt ''age'', Txt ''age'']),
                   (''Factor2TXT'', [Txt ''bp'', Txt ''bp'', Txt ''bp''])]\<rparr> 1 ! 2
     = (''Factor2TXT'', Txt ([[''age'', ''bp''], [''age'', ''bp''], [''age'', ''bp'']] ! 1 ! 1))"
proof -
  have c: "row \<lparr>index = [0, 1, 2],
        columns = [(''id'', [Num 101, Num 102, Num 103]),
                   (''Factor1TXT'', [Txt ''age'', Txt ''age'', Txt ''age'']),
                   (''Factor2TXT'', [Txt ''bp'', Txt ''bp'', Txt ''bp''])]\<rparr> 1 ! 2
     = (''Factor2TXT'', Txt ([[''age'', ''bp''], [''age'', ''bp''], [''age'', ''bp'']] ! 1 ! 1))"
    by (simp add: row_def)
  show ?thesis
    using make_factors_positional [where top_k_features = example_top_k,
        OF make_factors_example prepare_example top_k_example] make_factors_example c
    by simp
qed

end
